theory Spec2Isabelle
  imports Complex_Main "HOL-Library.Sublist"
begin

section \<open>JavaScript values\<close>

text \<open>
  The feedback payload arrives as parsed JSON and the fields \<open>ratings\<close> and \<open>comments\<close> of
  \<open>DeviceFilteredEscalation\<close> are typed \<open>any\<close>, so they are modelled by a datatype of
  JavaScript values. A number of the payload is the rational it denotes (a finite double);
  arithmetic on numbers is the binary64 arithmetic of the language, defined below. Strings
  are lists of characters. An object is the list of its own enumerable properties in the
  order in which \<open>Object.entries\<close> enumerates them: keys that are array indices first, in
  ascending numeric order, then the other keys in insertion order.
\<close>

datatype jsval =
    JUndefined
  | JNull
  | JBool bool
  | JNum rat
  | JStr string
  | JArr "jsval list"
  | JObj "(string \<times> jsval) list"

datatype js_error = TypeError string | Error string

text \<open>ToBoolean, as used by \<open>&&\<close>, \<open>!\<close> and \<open>if\<close>.\<close>

fun truthy :: "jsval \<Rightarrow> bool" where
  "truthy JUndefined = False"
| "truthy JNull = False"
| "truthy (JBool b) = b"
| "truthy (JNum x) = (x \<noteq> 0)"
| "truthy (JStr s) = (s \<noteq> [])"
| "truthy (JArr xs) = True"
| "truthy (JObj kvs) = True"

fun typeof :: "jsval \<Rightarrow> string" where
  "typeof JUndefined = ''undefined''"
| "typeof JNull = ''object''"
| "typeof (JBool b) = ''boolean''"
| "typeof (JNum x) = ''number''"
| "typeof (JStr s) = ''string''"
| "typeof (JArr xs) = ''object''"
| "typeof (JObj kvs) = ''object''"

subsection \<open>Decimal numerals\<close>

definition digit_char :: "nat \<Rightarrow> char" where
  "digit_char d = ''0123456789'' ! (d mod 10)"

fun show_nat :: "nat \<Rightarrow> string" where
  "show_nat n = (if n < 10 then [digit_char n] else show_nat (n div 10) @ [digit_char (n mod 10)])"

declare show_nat.simps [simp del]

text \<open>Reading a decimal numeral back.\<close>

fun read_nat :: "string \<Rightarrow> nat" where
  "read_nat s = foldl (\<lambda>acc c. acc * 10 + (of_char c - 48)) 0 s"

subsection \<open>Objects and the order of their properties\<close>

text \<open>
  Setting a property replaces the value in place when the key exists and appends the
  property otherwise. An object built by setting properties one after the other (an object
  literal, \<open>JSON.parse\<close>) enumerates them as \<open>OrdinaryOwnPropertyKeys\<close> orders them: the keys
  that are array indices (canonical decimal numerals below \<open>2^32 - 1\<close>) in ascending numeric
  order, then the other keys in the order of their insertion.
\<close>

fun set_property :: "(string \<times> jsval) list \<Rightarrow> string \<Rightarrow> jsval \<Rightarrow> (string \<times> jsval) list" where
  "set_property [] k v = [(k, v)]"
| "set_property ((k', v') # kvs) k v =
     (if k' = k then (k, v) # kvs else (k', v') # set_property kvs k v)"

definition is_array_index :: "string \<Rightarrow> bool" where
  "is_array_index k =
     (k \<noteq> [] \<and> list_all (\<lambda>c. c \<in> set ''0123456789'') k \<and> show_nat (read_nat k) = k
      \<and> int (read_nat k) < 4294967295)"

definition own_property_order :: "(string \<times> jsval) list \<Rightarrow> (string \<times> jsval) list" where
  "own_property_order kvs =
     sort_key (\<lambda>(k, v). read_nat k) (filter (\<lambda>(k, v). is_array_index k) kvs)
     @ filter (\<lambda>(k, v). \<not> is_array_index k) kvs"

definition object_of_insertions :: "(string \<times> jsval) list \<Rightarrow> jsval" where
  "object_of_insertions insertions =
     JObj (own_property_order (foldl (\<lambda>kvs (k, v). set_property kvs k v) [] insertions))"

subsection \<open>\<open>Object.entries\<close> and \<open>Object.values\<close>\<close>

text \<open>
  \<open>Object.entries\<close> throws on \<open>undefined\<close> and \<open>null\<close>; an array enumerates its indices as
  keys, a string its characters, and a number or boolean has no own enumerable property.
\<close>

definition index_keys :: "'a list \<Rightarrow> (string \<times> 'a) list" where
  "index_keys xs = zip (map show_nat [0..<length xs]) xs"

fun Object_entries :: "jsval \<Rightarrow> js_error + (string \<times> jsval) list" where
  "Object_entries JUndefined = Inl (TypeError ''Cannot convert undefined or null to object'')"
| "Object_entries JNull = Inl (TypeError ''Cannot convert undefined or null to object'')"
| "Object_entries (JBool b) = Inr []"
| "Object_entries (JNum x) = Inr []"
| "Object_entries (JStr s) = Inr (index_keys (map (\<lambda>c. JStr [c]) s))"
| "Object_entries (JArr xs) = Inr (index_keys xs)"
| "Object_entries (JObj kvs) = Inr kvs"

definition Object_values :: "jsval \<Rightarrow> js_error + jsval list" where
  "Object_values v = (case Object_entries v of Inl e \<Rightarrow> Inl e | Inr kvs \<Rightarrow> Inr (map snd kvs))"

subsection \<open>\<open>Number.prototype.toFixed(1)\<close>\<close>

text \<open>
  ECMAScript: with the sign split off, a magnitude of at least \<open>10^21\<close> is rendered by
  \<open>Number::toString\<close> (not part of this repository: the parameter \<open>toStr\<close>); below that, \<open>n\<close> is
  the integer for which \<open>n / 10 - x\<close> is as close to zero as possible, the larger one when
  there are two, and the result is its decimal digits, padded to two, with a point before
  the last digit.
\<close>

definition nearest_tenth :: "rat \<Rightarrow> int" where
  "nearest_tenth x = \<lfloor>x * 10 + 1 / 2\<rfloor>"

definition toFixed1 :: "(rat \<Rightarrow> string) \<Rightarrow> rat \<Rightarrow> string" where
  "toFixed1 toStr x0 =
     (let s = (if x0 < 0 then ''-'' else '''');
          x = (if x0 < 0 then - x0 else x0)
      in if 10 ^ 21 \<le> x then s @ toStr x
         else
           let n = nat (nearest_tenth x);
               m = show_nat n;
               m' = (if length m \<le> 1 then replicate (2 - length m) CHR ''0'' @ m else m);
               k = length m'
           in s @ take (k - 1) m' @ ''.'' @ drop (k - 1) m')"

subsection \<open>Number arithmetic\<close>

text \<open>
  A Number value is a finite double, an infinity or NaN (the two zeros are not
  distinguished). \<open>round_double x\<close> is the Number value for the real \<open>x\<close>: the nearest double,
  the one with the even significand when two are equally near, and an infinity when the
  result reaches \<open>2^1024\<close>. A double is an integer of at most 53 bits times a power of two
  with exponent at least \<open>-1074\<close>, so \<open>x\<close> is scaled by the exponent of its binade less 52
  (never below \<open>-1074\<close>) and rounded to an integer there. \<open>floor_log2 x\<close> is the exponent of the
  binade of a positive \<open>x\<close>, read off the bit length of its integer part or of the integer
  part of its reciprocal.
\<close>

datatype double = Finite rat | PosInfinity | NegInfinity | NaN

function bit_length :: "int \<Rightarrow> int" where
  "bit_length n = (if n \<le> 0 then 0 else 1 + bit_length (n div 2))"
  by pat_completeness auto
termination
  by (relation "measure nat") auto

declare bit_length.simps [simp del]

definition floor_log2 :: "rat \<Rightarrow> int" where
  "floor_log2 x =
     (if 1 \<le> x then bit_length \<lfloor>x\<rfloor> - 1
      else - bit_length (\<lceil>1 / x\<rceil> - 1))"

definition pow2 :: "int \<Rightarrow> rat" where
  "pow2 e = (if 0 \<le> e then 2 ^ nat e else 1 / 2 ^ nat (- e))"

definition round_half_even :: "rat \<Rightarrow> int" where
  "round_half_even q =
     (let f = \<lfloor>q\<rfloor>; r = q - of_int f
      in if r < 1 / 2 then f else if 1 / 2 < r then f + 1 else if even f then f else f + 1)"

definition round_double :: "rat \<Rightarrow> double" where
  "round_double x =
     (if x = 0 then Finite 0
      else
        let a = \<bar>x\<bar>;
            e = max (floor_log2 a - 52) (- 1074);
            y = of_int (round_half_even (a / pow2 e)) * pow2 e
        in if 1024 \<le> floor_log2 y then (if x < 0 then NegInfinity else PosInfinity)
           else Finite (if x < 0 then - y else y))"

text \<open>\<open>Number::add\<close> and \<open>Number::divide\<close>: the exact result, rounded.\<close>

fun number_add :: "double \<Rightarrow> double \<Rightarrow> double" where
  "number_add NaN y = NaN"
| "number_add x NaN = NaN"
| "number_add PosInfinity NegInfinity = NaN"
| "number_add NegInfinity PosInfinity = NaN"
| "number_add PosInfinity y = PosInfinity"
| "number_add NegInfinity y = NegInfinity"
| "number_add x PosInfinity = PosInfinity"
| "number_add x NegInfinity = NegInfinity"
| "number_add (Finite x) (Finite y) = round_double (x + y)"

fun number_divide :: "double \<Rightarrow> double \<Rightarrow> double" where
  "number_divide NaN y = NaN"
| "number_divide x NaN = NaN"
| "number_divide PosInfinity PosInfinity = NaN"
| "number_divide PosInfinity NegInfinity = NaN"
| "number_divide NegInfinity PosInfinity = NaN"
| "number_divide NegInfinity NegInfinity = NaN"
| "number_divide PosInfinity (Finite y) = (if y < 0 then NegInfinity else PosInfinity)"
| "number_divide NegInfinity (Finite y) = (if y < 0 then PosInfinity else NegInfinity)"
| "number_divide (Finite x) PosInfinity = Finite 0"
| "number_divide (Finite x) NegInfinity = Finite 0"
| "number_divide (Finite x) (Finite y) =
     (if y = 0 then (if x = 0 then NaN else if 0 < x then PosInfinity else NegInfinity)
      else round_double (x / y))"

text \<open>\<open>toFixed(1)\<close> of a Number value: one that is not finite is rendered by its name.\<close>

fun toFixed_number :: "(rat \<Rightarrow> string) \<Rightarrow> double \<Rightarrow> string" where
  "toFixed_number toStr (Finite x) = toFixed1 toStr x"
| "toFixed_number toStr PosInfinity = ''Infinity''"
| "toFixed_number toStr NegInfinity = ''-Infinity''"
| "toFixed_number toStr NaN = ''NaN''"

section \<open>Feedback aggregation\<close>

text \<open>
  The fields of \<open>DeviceFilteredEscalation\<close> (services/DeviceService) that the display logic
  reads. An optional field is an \<open>option\<close>, \<open>None\<close> for \<open>undefined\<close>.
\<close>

record DeviceFilteredEscalation =
  isEscalated :: bool
  escalationReason :: "string option"
  severity :: "string option"
  ratings :: jsval
  comments :: jsval
  primaryRating :: "rat option"
  primaryComment :: "string option"

text \<open>Status colours of config/theme.ts (\<open>SUPERFAN_COLORS\<close>).\<close>

definition success :: string where "success = ''#10B981''"
definition warning :: string where "warning = ''#F59E0B''"
definition error :: string where "error = ''#EF4444''"
definition info :: string where "info = ''#3B82F6''"

text \<open>\<open>getRatingColor\<close> (the escalations list and FeedbackDetailScreen).\<close>

definition getRatingColor :: "rat \<Rightarrow> string" where
  "getRatingColor rating =
     (if rating \<ge> 4 then ''#10B981''
      else if rating \<ge> 3 then ''#F59E0B''
      else ''#EF4444'')"

text \<open>
  The test \<open>typeof value === 'number' && value > 0\<close>; the comparison is evaluated for
  numbers only.
\<close>

definition positive_number :: "jsval \<Rightarrow> bool" where
  "positive_number v = (typeof v = ''number'' \<and> (case v of JNum x \<Rightarrow> x > 0 | _ \<Rightarrow> False))"

text \<open>
  \<open>getAverageRating\<close> (escalations list and FeedbackDetailScreen). The filter
  \<open>typeof rating === 'number' && rating > 0\<close> narrows the values to numbers; \<open>reduce\<close> with
  the initial value 0 is a left fold of \<open>+\<close>, and \<open>+\<close> and \<open>/\<close> are the operations on doubles.
\<close>

definition ratingValues_of :: "jsval list \<Rightarrow> rat list" where
  "ratingValues_of vs =
     [x. JNum x \<leftarrow> filter (\<lambda>rating. positive_number rating) vs]"

definition getAverageRating_fallback :: "(rat \<Rightarrow> string) \<Rightarrow> DeviceFilteredEscalation \<Rightarrow> js_error + string" where
  "getAverageRating_fallback toStr feedback =
     (if truthy (ratings feedback) \<and> typeof (ratings feedback) = ''object''
      then (case Object_values (ratings feedback) of
              Inl e \<Rightarrow> Inl e
            | Inr vs \<Rightarrow>
                let ratingValues = ratingValues_of vs
                in if length ratingValues > 0
                   then Inr (toFixed_number toStr
                          (number_divide
                             (foldl (\<lambda>sum rating. number_add sum (Finite rating)) (Finite 0) ratingValues)
                             (Finite (of_nat (length ratingValues)))))
                   else Inr ''0.0'')
      else Inr ''0.0'')"

definition getAverageRating :: "(rat \<Rightarrow> string) \<Rightarrow> DeviceFilteredEscalation \<Rightarrow> js_error + string" where
  "getAverageRating toStr feedback =
     (case primaryRating feedback of
        Some r \<Rightarrow>
          if r \<noteq> 0 \<and> r > 0 then Inr (toFixed1 toStr r)
          else getAverageRating_fallback toStr feedback
      | None \<Rightarrow> getAverageRating_fallback toStr feedback)"

text \<open>
  \<open>getAvailableRatings\<close> (escalations list). \<open>String.prototype.toUpperCase\<close> is the
  parameter \<open>toUpperCase\<close>; \<open>charAt(0)\<close> is the first character or the empty string,
  \<open>slice(1)\<close> the rest, \<open>slice(0, 5)\<close> the first five elements. The field \<open>value\<close> of an
  item is \<open>rvalue\<close> here.
\<close>

record RatingEntry =
  key :: string
  label :: string
  rvalue :: jsval

definition charAt0 :: "string \<Rightarrow> string" where
  "charAt0 s = take 1 s"

definition slice1 :: "string \<Rightarrow> string" where
  "slice1 s = drop 1 s"

definition getAvailableRatings :: "(string \<Rightarrow> string) \<Rightarrow> DeviceFilteredEscalation \<Rightarrow> js_error + RatingEntry list" where
  "getAvailableRatings toUpperCase feedback =
     (if truthy (ratings feedback) \<and> typeof (ratings feedback) = ''object''
      then (case Object_entries (ratings feedback) of
              Inl e \<Rightarrow> Inl e
            | Inr entries \<Rightarrow>
                Inr (map (\<lambda>(k, v). \<lparr>key = k, label = toUpperCase (charAt0 k) @ slice1 k, rvalue = v\<rparr>)
                      (take 5 (filter (\<lambda>(_, v). positive_number v) entries))))
      else Inr [])"

text \<open>
  \<open>getAllComments\<close> (escalations list). \<open>trim\<close> strips the white space and line
  terminators of ECMAScript that fit a character of this model: tab, line feed, vertical
  tab, form feed, carriage return, space and no-break space.
\<close>

definition is_whitespace :: "char \<Rightarrow> bool" where
  "is_whitespace c = ((of_char c :: nat) \<in> {9, 10, 11, 12, 13, 32, 160})"

definition trim :: "string \<Rightarrow> string" where
  "trim s = rev (dropWhile is_whitespace (rev (dropWhile is_whitespace s)))"

fun join :: "string \<Rightarrow> string list \<Rightarrow> string" where
  "join sep [] = []"
| "join sep [x] = x"
| "join sep (x # y # ys) = x @ sep @ join sep (y # ys)"

definition commentValues_of :: "jsval list \<Rightarrow> string list" where
  "commentValues_of vs =
     [s. JStr s \<leftarrow> filter (\<lambda>comment. typeof comment = ''string''
            \<and> (case comment of JStr s \<Rightarrow> length (trim s) > 0 | _ \<Rightarrow> False)) vs]"

definition getAllComments_fallback :: "DeviceFilteredEscalation \<Rightarrow> js_error + string option" where
  "getAllComments_fallback feedback =
     (if truthy (comments feedback) \<and> typeof (comments feedback) = ''object''
      then (case Object_values (comments feedback) of
              Inl e \<Rightarrow> Inl e
            | Inr vs \<Rightarrow>
                let commentValues = commentValues_of vs
                in if length commentValues > 0
                   then Inr (Some (join '' | '' commentValues))
                   else Inr None)
      else Inr None)"

definition getAllComments :: "DeviceFilteredEscalation \<Rightarrow> js_error + string option" where
  "getAllComments feedback =
     (case primaryComment feedback of
        Some c \<Rightarrow>
          if c \<noteq> [] \<and> trim c \<noteq> [] then Inr (Some c)
          else getAllComments_fallback feedback
      | None \<Rightarrow> getAllComments_fallback feedback)"

text \<open>
  The escalation banner of the escalations list and of FeedbackDetailScreen: four
  conditional chains on \<open>severity\<close> (background colour, icon name, icon colour, text colour),
  each comparing with \<open>'high'\<close> and then with \<open>'medium'\<close>. The presentation triple of the
  specification is (background colour, icon name, text colour).
\<close>

definition escalationBanner_backgroundColor :: "string option \<Rightarrow> string" where
  "escalationBanner_backgroundColor sev =
     (if sev = Some ''high'' then ''#FEF2F2''
      else if sev = Some ''medium'' then ''#FFFBEB'' else ''#EBF4FF'')"

definition escalationBanner_iconName :: "string option \<Rightarrow> string" where
  "escalationBanner_iconName sev =
     (if sev = Some ''high'' then ''alert-circle''
      else if sev = Some ''medium'' then ''warning'' else ''information-circle'')"

definition escalationBanner_iconColor :: "string option \<Rightarrow> string" where
  "escalationBanner_iconColor sev =
     (if sev = Some ''high'' then ''#EF4444''
      else if sev = Some ''medium'' then ''#F59E0B'' else ''#3B82F6'')"

definition escalationBanner_textColor :: "string option \<Rightarrow> string" where
  "escalationBanner_textColor sev =
     (if sev = Some ''high'' then ''#EF4444''
      else if sev = Some ''medium'' then ''#F59E0B'' else ''#3B82F6'')"

definition escalationBanner :: "string option \<Rightarrow> string \<times> string \<times> string" where
  "escalationBanner sev =
     (escalationBanner_backgroundColor sev, escalationBanner_iconName sev, escalationBanner_textColor sev)"

text \<open>The ASCII part of \<open>toUpperCase\<close>, for concrete inputs.\<close>

definition toUpperCase_ascii :: "string \<Rightarrow> string" where
  "toUpperCase_ascii s =
     map (\<lambda>c. case map_of (zip ''abcdefghijklmnopqrstuvwxyz'' ''ABCDEFGHIJKLMNOPQRSTUVWXYZ'') c of
                Some u \<Rightarrow> u | None \<Rightarrow> c) s"

section \<open>Device registration client: model\<close>

text \<open>
  The type \<open>'low' | 'medium' | 'high'\<close> of a subscription severity, with the string each
  value is.
\<close>

datatype SeverityLevel = Low | Medium | High

fun severity_text :: "SeverityLevel \<Rightarrow> string" where
  "severity_text Low = ''low''"
| "severity_text Medium = ''medium''"
| "severity_text High = ''high''"

text \<open>
  The world outside the client: the contents of AsyncStorage with, for each key, the error
  a read or a write of it rejects with (if any); the requests axios has issued, in order;
  the console; and the alerts shown. A log entry is the level, the message and the error
  object logged with it.
\<close>

record http_request =
  http_method :: string
  url :: string
  body :: jsval
  headers :: "(string \<times> string) list"

datatype log_level = ConsoleLog | ConsoleError

type_synonym log_entry = "log_level \<times> string \<times> js_error option"

record world =
  storage :: "string \<Rightarrow> string option"
  read_error :: "string \<Rightarrow> js_error option"
  write_error :: "string \<Rightarrow> js_error option"
  requests :: "http_request list"
  console :: "log_entry list"
  alerts :: "(string \<times> string) list"

text \<open>
  What the sources at hand do not hold: \<open>buildApiUrl\<close> and \<open>API_ENDPOINTS\<close> of
  config/api (\<open>DEVICE_SUBSCRIPTION_for id\<close> is
  \<open>API_ENDPOINTS.DEVICE_SUBSCRIPTION.replace(':deviceId', id)\<close>), the built-ins \<open>JSON.parse\<close>,
  \<open>JSON.stringify\<close> and \<open>toUpperCase\<close>, the server (for each request the error axios
  rejects with, or the \<open>data\<close> of the response), and the answers of expo-notifications and
  expo-device.
\<close>

record env =
  buildApiUrl :: "string \<Rightarrow> string"
  ESCALATIONS_DEVICE :: string
  DEVICE_REGISTER :: string
  DEVICE_SUBSCRIPTION_for :: "string \<Rightarrow> string"
  JSON_parse :: "string \<Rightarrow> js_error + jsval"
  JSON_stringify :: "jsval \<Rightarrow> string"
  toUpperCase :: "string \<Rightarrow> string"
  server :: "http_request \<Rightarrow> js_error + jsval"
  requestPermissionsAsync :: "js_error + string"
  getExpoPushTokenAsync :: "js_error + string"
  osInternalBuildId :: "string option"
  modelId :: "string option"
  deviceName :: "string option"
  brand :: "string option"
  modelName :: "string option"

definition console_log :: "world \<Rightarrow> string \<Rightarrow> world" where
  "console_log w msg = w\<lparr>console := console w @ [(ConsoleLog, msg, None)]\<rparr>"

definition console_error :: "world \<Rightarrow> string \<Rightarrow> js_error \<Rightarrow> world" where
  "console_error w msg err = w\<lparr>console := console w @ [(ConsoleError, msg, Some err)]\<rparr>"

definition Alert_alert :: "world \<Rightarrow> string \<Rightarrow> string \<Rightarrow> world" where
  "Alert_alert w title message = w\<lparr>alerts := alerts w @ [(title, message)]\<rparr>"

text \<open>
  \<open>AsyncStorage.getItem\<close> resolves to the stored string or null; \<open>AsyncStorage.setItem\<close>
  stores a string, and a value that is not a string is rejected (the library is not among
  the sources: the text of that error stands for the library's own). An axios call appends
  its request to the requests issued.
\<close>

definition getItem :: "world \<Rightarrow> string \<Rightarrow> js_error + string option" where
  "getItem w k = (case read_error w k of Some err \<Rightarrow> Inl err | None \<Rightarrow> Inr (storage w k))"

definition setItem :: "world \<Rightarrow> string \<Rightarrow> jsval \<Rightarrow> js_error + world" where
  "setItem w k v =
     (case v of
        JStr s \<Rightarrow>
          (case write_error w k of
             Some err \<Rightarrow> Inl err
           | None \<Rightarrow> Inr (w\<lparr>storage := (storage w)(k := Some s)\<rparr>))
      | _ \<Rightarrow> Inl (Error ''[AsyncStorage] The value is not a string''))"

definition axios :: "env \<Rightarrow> world \<Rightarrow> http_request \<Rightarrow> (js_error + jsval) \<times> world" where
  "axios e w req = (server e req, w\<lparr>requests := requests w @ [req]\<rparr>)"

text \<open>
  \<open>DeviceService\<close> (services/DeviceService). Each \<open>try\<close>/\<open>catch\<close> is a case distinction on the
  result of the operation that can throw; the functions return their result with the world
  they leave.
\<close>

definition getDeviceCredentials :: "world \<Rightarrow> (string \<times> string) option \<times> world" where
  "getDeviceCredentials w =
     (case getItem w ''deviceId'' of
        Inl err \<Rightarrow> (None, console_error w ''Failed to get device credentials:'' err)
      | Inr deviceId \<Rightarrow>
          (case getItem w ''deviceSecret'' of
             Inl err \<Rightarrow> (None, console_error w ''Failed to get device credentials:'' err)
           | Inr deviceSecret \<Rightarrow>
               (case (deviceId, deviceSecret) of
                  (Some i, Some s) \<Rightarrow> if i = [] \<or> s = [] then (None, w) else (Some (i, s), w)
                | _ \<Rightarrow> (None, w))))"

definition getDeviceRegistration :: "env \<Rightarrow> world \<Rightarrow> jsval \<times> world" where
  "getDeviceRegistration e w =
     (case getItem w ''deviceRegistration'' of
        Inl err \<Rightarrow> (JNull, console_error w ''Failed to get device registration:'' err)
      | Inr storedRegistration \<Rightarrow>
          (case storedRegistration of
             None \<Rightarrow> (JNull, w)
           | Some s \<Rightarrow>
               if s = [] then (JNull, w)
               else (case JSON_parse e s of
                       Inl err \<Rightarrow> (JNull, console_error w ''Failed to get device registration:'' err)
                     | Inr v \<Rightarrow> (v, w))))"

definition getDeviceFilteredEscalations :: "env \<Rightarrow> world \<Rightarrow> (js_error + jsval) \<times> world" where
  "getDeviceFilteredEscalations e w =
     (case getDeviceCredentials w of
        (None, w1) \<Rightarrow> (Inr (JArr []), console_log w1 ''No device credentials found for escalations'')
      | (Some (deviceId, deviceSecret), w1) \<Rightarrow>
          (case axios e w1
                  \<lparr>http_method = ''GET'', url = buildApiUrl e (ESCALATIONS_DEVICE e), body = JUndefined,
                   headers = [(''x-device-id'', deviceId), (''x-device-secret'', deviceSecret)]\<rparr> of
             (Inl err, w2) \<Rightarrow>
               (Inl err, console_error w2 ''Failed to fetch device-filtered escalations:'' err)
           | (Inr data, w2) \<Rightarrow> (Inr (if truthy data then data else JArr []), w2)))"

text \<open>
  The object literal \<open>{...registration, subscriptionSeverity: newSeverity}\<close>: the own
  properties of the spread value, then the property set (\<open>set_property\<close>).
\<close>

definition spread :: "jsval \<Rightarrow> (string \<times> jsval) list" where
  "spread v = (case Object_entries v of Inl err \<Rightarrow> [] | Inr kvs \<Rightarrow> kvs)"

definition updateSubscriptionSeverity :: "env \<Rightarrow> SeverityLevel \<Rightarrow> world \<Rightarrow> bool \<times> world" where
  "updateSubscriptionSeverity e newSeverity w =
     (case getDeviceCredentials w of
        (None, w1) \<Rightarrow>
          (False, console_error w1 ''Failed to update subscription severity:''
                    (Error ''Device not registered''))
      | (Some (deviceId, deviceSecret), w1) \<Rightarrow>
          (case axios e w1
                  \<lparr>http_method = ''PATCH'', url = buildApiUrl e (DEVICE_SUBSCRIPTION_for e deviceId),
                   body = JObj [(''subscriptionSeverity'', JStr (severity_text newSeverity))],
                   headers = [(''x-device-secret'', deviceSecret)]\<rparr> of
             (Inl err, w2) \<Rightarrow> (False, console_error w2 ''Failed to update subscription severity:'' err)
           | (Inr response, w2) \<Rightarrow>
               (case getDeviceRegistration e w2 of
                  (registration, w3) \<Rightarrow>
                    if truthy registration
                    then (case setItem w3 ''deviceRegistration''
                                 (JStr (JSON_stringify e
                                    (JObj (set_property (spread registration) ''subscriptionSeverity''
                                             (JStr (severity_text newSeverity)))))) of
                            Inl err \<Rightarrow>
                              (False, console_error w3 ''Failed to update subscription severity:'' err)
                          | Inr w4 \<Rightarrow>
                              (True, console_log w4 (''Subscription updated to '' @ severity_text newSeverity)))
                    else (True, console_log w3 (''Subscription updated to '' @ severity_text newSeverity)))))"


text \<open>
  \<open>NotificationChannelScreen\<close>: the state hooks the two handlers read and set, and the user
  of \<open>useAuth\<close>. \<open>a || b\<close> on strings is \<open>or_else\<close>; a template literal prints null as
  \<open>null\<close>.
\<close>

record screen =
  user :: jsval
  registering :: bool
  deviceRegistration :: jsval
  selectedSeverity :: SeverityLevel
  permissionStatus :: string

fun get_property :: "jsval \<Rightarrow> string \<Rightarrow> js_error + jsval" where
  "get_property JUndefined k = Inl (TypeError ''Cannot read properties of undefined'')"
| "get_property JNull k = Inl (TypeError ''Cannot read properties of null'')"
| "get_property (JObj kvs) k = Inr (case map_of kvs k of Some v \<Rightarrow> v | None \<Rightarrow> JUndefined)"
| "get_property v k = Inr JUndefined"

definition or_else :: "string option \<Rightarrow> string \<Rightarrow> string" where
  "or_else a b = (case a of Some s \<Rightarrow> if s = [] then b else s | None \<Rightarrow> b)"

definition template_text :: "string option \<Rightarrow> string" where
  "template_text a = (case a of Some s \<Rightarrow> s | None \<Rightarrow> ''null'')"

definition requestNotificationPermission :: "env \<Rightarrow> screen \<Rightarrow> world \<Rightarrow> bool \<times> screen \<times> world" where
  "requestNotificationPermission e sc w =
     (case requestPermissionsAsync e of
        Inl err \<Rightarrow> (False, sc, console_error w ''Error requesting notification permission:'' err)
      | Inr status \<Rightarrow>
          if status \<noteq> ''granted''
          then (False, sc\<lparr>permissionStatus := status\<rparr>,
                Alert_alert w ''Permission Required''
                  ''Please enable notifications in your device settings to receive escalation alerts.'')
          else (True, sc\<lparr>permissionStatus := status\<rparr>, w))"

definition registration_failed :: "js_error \<Rightarrow> screen \<Rightarrow> world \<Rightarrow> screen \<times> world" where
  "registration_failed err sc w =
     (sc\<lparr>registering := False\<rparr>,
      Alert_alert (console_error w ''Failed to register device:'' err) ''Registration Failed''
        ''Unable to register your device for notifications. Please try again.'')"

definition registerDevice :: "env \<Rightarrow> screen \<Rightarrow> world \<Rightarrow> screen \<times> world" where
  "registerDevice e sc w =
     (if \<not> truthy (user sc)
      then (sc, Alert_alert w ''Error'' ''Please log in to register your device'')
      else
        case (if permissionStatus sc \<noteq> ''granted''
              then requestNotificationPermission e (sc\<lparr>registering := True\<rparr>) w
              else (True, sc\<lparr>registering := True\<rparr>, w)) of
          (granted, sc1, w1) \<Rightarrow>
            if \<not> granted then (sc1\<lparr>registering := False\<rparr>, w1)
            else
              (case getExpoPushTokenAsync e of
                 Inl err \<Rightarrow> registration_failed err sc1 w1
               | Inr pushToken \<Rightarrow>
                   let deviceId = or_else (osInternalBuildId e) (or_else (modelId e) ''unknown'');
                       devName = or_else (deviceName e)
                                   (template_text (brand e) @ '' '' @ template_text (modelName e))
                   in
                   (case axios e w1
                           \<lparr>http_method = ''POST'', url = buildApiUrl e (DEVICE_REGISTER e),
                            body = JObj [(''deviceId'', JStr deviceId), (''deviceName'', JStr devName),
                                         (''pushToken'', JStr pushToken),
                                         (''subscriptionSeverity'',
                                            JStr (severity_text (selectedSeverity sc)))],
                            headers = []\<rparr> of
                      (Inl err, w2) \<Rightarrow> registration_failed err sc1 w2
                    | (Inr data, w2) \<Rightarrow>
                        (case get_property data ''id'' of
                           Inl err \<Rightarrow> registration_failed err sc1 w2
                         | Inr rid \<Rightarrow>
                        (case get_property data ''deviceSecret'' of
                           Inl err \<Rightarrow> registration_failed err sc1 w2
                         | Inr rsecret \<Rightarrow>
                        (case get_property data ''subscriptionSeverity'' of
                           Inl err \<Rightarrow> registration_failed err sc1 w2
                         | Inr rseverity \<Rightarrow>
                             let registration = JObj [(''id'', rid), (''deviceSecret'', rsecret),
                                                      (''subscriptionSeverity'', rseverity)]
                             in
                             (case setItem w2 ''deviceRegistration''
                                     (JStr (JSON_stringify e registration)) of
                                Inl err \<Rightarrow> registration_failed err sc1 w2
                              | Inr w3 \<Rightarrow>
                             (case setItem w3 ''deviceId'' (JStr deviceId) of
                                Inl err \<Rightarrow> registration_failed err sc1 w3
                              | Inr w4 \<Rightarrow>
                             (case setItem w4 ''deviceSecret'' rsecret of
                                Inl err \<Rightarrow> registration_failed err sc1 w4
                              | Inr w5 \<Rightarrow>
                                  (sc1\<lparr>deviceRegistration := registration, registering := False\<rparr>,
                                   Alert_alert w5 ''Device Registered''
                                     (''Your device is now subscribed to ''
                                        @ toUpperCase e (severity_text (selectedSeverity sc))
                                        @ '' priority notifications.'')))))))))))"

definition update_failed :: "js_error \<Rightarrow> screen \<Rightarrow> world \<Rightarrow> screen \<times> world" where
  "update_failed err sc w =
     (sc, Alert_alert (console_error w ''Failed to update subscription:'' err) ''Update Failed''
            ''Unable to update your notification subscription. Please try again.'')"

definition updateSubscription :: "env \<Rightarrow> SeverityLevel \<Rightarrow> screen \<Rightarrow> world \<Rightarrow> screen \<times> world" where
  "updateSubscription e newSeverity sc w =
     (if \<not> truthy (deviceRegistration sc)
      then (sc, Alert_alert w ''Error'' ''Device not registered. Please register first.'')
      else
        case getItem w ''deviceId'' of
          Inl err \<Rightarrow> update_failed err sc w
        | Inr deviceId \<Rightarrow>
        (case getItem w ''deviceSecret'' of
          Inl err \<Rightarrow> update_failed err sc w
        | Inr deviceSecret \<Rightarrow>
        (case (deviceId, deviceSecret) of
           (Some i, Some s) \<Rightarrow>
             if i = [] \<or> s = []
             then (sc, Alert_alert w ''Error'' ''Device credentials not found. Please re-register.'')
             else
               (case axios e w
                       \<lparr>http_method = ''PATCH'', url = buildApiUrl e (DEVICE_SUBSCRIPTION_for e i),
                        body = JObj [(''subscriptionSeverity'', JStr (severity_text newSeverity))],
                        headers = [(''x-device-secret'', s)]\<rparr> of
                  (Inl err, w1) \<Rightarrow> update_failed err sc w1
                | (Inr response, w1) \<Rightarrow>
                    let updatedRegistration =
                          JObj (set_property (spread (deviceRegistration sc)) ''subscriptionSeverity''
                                  (JStr (severity_text newSeverity)))
                    in
                    (case setItem w1 ''deviceRegistration''
                            (JStr (JSON_stringify e updatedRegistration)) of
                       Inl err \<Rightarrow> update_failed err sc w1
                     | Inr w2 \<Rightarrow>
                         (sc\<lparr>deviceRegistration := updatedRegistration, selectedSeverity := newSeverity\<rparr>,
                          Alert_alert w2 ''Subscription Updated''
                            (''You will now receive '' @ toUpperCase e (severity_text newSeverity)
                               @ '' priority notifications.''))))
         | _ \<Rightarrow> (sc, Alert_alert w ''Error'' ''Device credentials not found. Please re-register.''))))"

text \<open>
  A device registration exists locally when storage holds a non-empty device identifier and
  a non-empty device secret.
\<close>

definition has_credentials :: "world \<Rightarrow> bool" where
  "has_credentials w =
     (case (storage w ''deviceId'', storage w ''deviceSecret'') of
        (Some i, Some s) \<Rightarrow> i \<noteq> [] \<and> s \<noteq> []
      | _ \<Rightarrow> False)"

text \<open>
  Concrete inputs: an environment whose server rejects every request (its subscription
  endpoint is the one \<open>replace\<close> yields for an identifier without \<open>$\<close>, as the identifiers used
  here are), a world with empty storage and one with stored credentials; a record of
  half-star ratings whose exact mean is 4.35; a record whose ratings were inserted under the
  keys \<open>service\<close>, \<open>10\<close> and \<open>2\<close> in that order; and a stand-in for \<open>Number::toString\<close>, which no
  rating below \<open>10^21\<close> reaches.
\<close>

definition offline_env :: env where
  "offline_env =
     \<lparr>buildApiUrl = (\<lambda>path. ''https://api.example'' @ path),
      ESCALATIONS_DEVICE = ''/api/escalations/device'',
      DEVICE_REGISTER = ''/api/devices/register'',
      DEVICE_SUBSCRIPTION_for = (\<lambda>i. ''/api/devices/'' @ i @ ''/subscription''),
      JSON_parse = (\<lambda>s. Inl (Error ''SyntaxError'')),
      JSON_stringify = (\<lambda>v. ''{}''),
      toUpperCase = toUpperCase_ascii,
      server = (\<lambda>req. Inl (Error ''Network Error'')),
      requestPermissionsAsync = Inr ''granted'',
      getExpoPushTokenAsync = Inr ''ExponentPushToken[0]'',
      osInternalBuildId = Some ''BUILD1'',
      modelId = None,
      deviceName = Some ''Pixel'',
      brand = None,
      modelName = None\<rparr>"

definition fresh_world :: world where
  "fresh_world =
     \<lparr>storage = (\<lambda>k. None), read_error = (\<lambda>k. None), write_error = (\<lambda>k. None),
      requests = [], console = [], alerts = []\<rparr>"

definition registered_world :: world where
  "registered_world =
     fresh_world\<lparr>storage := (\<lambda>k. if k = ''deviceId'' then Some ''BUILD1''
                                else if k = ''deviceSecret'' then Some ''s3cret'' else None)\<rparr>"

definition unused_toString :: "rat \<Rightarrow> string" where
  "unused_toString x = []"

definition half_star_feedback :: DeviceFilteredEscalation where
  "half_star_feedback =
     \<lparr>isEscalated = False, escalationReason = None, severity = None,
      ratings = JObj [(''service'', JNum (17 / 4)), (''quality'', JNum (9 / 2)),
                      (''cleanliness'', JNum (9 / 2)), (''staff'', JNum (9 / 2)),
                      (''washroom'', JNum 4)],
      comments = JNull, primaryRating = None, primaryComment = None\<rparr>"

definition index_key_feedback :: DeviceFilteredEscalation where
  "index_key_feedback =
     \<lparr>isEscalated = False, escalationReason = None, severity = None,
      ratings = object_of_insertions [(''service'', JNum 2), (''10'', JNum 3), (''2'', JNum 4)],
      comments = JNull, primaryRating = None, primaryComment = None\<rparr>"

section \<open>The specification's vocabulary\<close>

text \<open>
  The named-ratings mapping of a record: the entries of its \<open>ratings\<close> field when that holds
  an object (an array is an object keyed by its indices), none otherwise. Its positive
  ratings are the numeric values greater than 0, in order.
\<close>

fun mapping_entries :: "jsval \<Rightarrow> (string \<times> jsval) list" where
  "mapping_entries (JObj kvs) = kvs"
| "mapping_entries (JArr xs) = index_keys xs"
| "mapping_entries v = []"

definition positive_ratings :: "jsval \<Rightarrow> rat list" where
  "positive_ratings r = [x. (k, JNum x) \<leftarrow> mapping_entries r, 0 < x]"

text \<open>
  The mean of a list of numbers as double arithmetic computes it: the sum accumulated from
  the left, each addition rounded, then divided by the count and rounded. A rational is a
  double when rounding leaves it as it is; a Number value is non-negative when it is a
  finite non-negative double or positive infinity.
\<close>

definition double_mean :: "rat list \<Rightarrow> double" where
  "double_mean ps =
     number_divide (foldl (\<lambda>sum rating. number_add sum (Finite rating)) (Finite 0) ps)
       (Finite (of_nat (length ps)))"

definition is_double :: "rat \<Rightarrow> bool" where
  "is_double x = (round_double x = Finite x)"

fun nonneg_double :: "double \<Rightarrow> bool" where
  "nonneg_double (Finite y) = (0 \<le> y)"
| "nonneg_double PosInfinity = True"
| "nonneg_double NegInfinity = False"
| "nonneg_double NaN = False"

text \<open>The decimal numeral of \<open>n\<close> tenths: integer part, point, one fractional digit.\<close>

definition one_decimal :: "nat \<Rightarrow> string" where
  "one_decimal n = show_nat (n div 10) @ ''.'' @ show_nat (n mod 10)"

text \<open>
  The specification's listDisplayRatings: the entries whose value is a number greater than
  0, at most \<open>maxCount\<close> of them, in order, each labelled with its key, first character
  upper-cased. Its selectDisplayComment collects the string values that are non-empty after
  trimming.
\<close>

definition positive_entries :: "jsval \<Rightarrow> (string \<times> jsval) list" where
  "positive_entries r = [(k, JNum x). (k, JNum x) \<leftarrow> mapping_entries r, 0 < x]"

definition listDisplayRatings :: "(string \<Rightarrow> string) \<Rightarrow> nat \<Rightarrow> jsval \<Rightarrow> RatingEntry list" where
  "listDisplayRatings upper maxCount r =
     map (\<lambda>(k, v). \<lparr>key = k, label = upper (take 1 k) @ drop 1 k, rvalue = v\<rparr>)
       (take maxCount (positive_entries r))"

text \<open>
  The display ratings as the specification words them, in insertion order: of the
  properties in the order they were inserted, those whose value is a number greater than
  0, at most \<open>maxCount\<close>, labelled.
\<close>

definition insertion_order_ratings ::
    "(string \<Rightarrow> string) \<Rightarrow> nat \<Rightarrow> (string \<times> jsval) list \<Rightarrow> RatingEntry list" where
  "insertion_order_ratings upper maxCount insertions =
     map (\<lambda>(k, v). \<lparr>key = k, label = upper (take 1 k) @ drop 1 k, rvalue = v\<rparr>)
       (take maxCount (filter (\<lambda>(k, v). positive_number v) insertions))"

definition nonblank_comments :: "jsval \<Rightarrow> string list" where
  "nonblank_comments r = [s. (k, JStr s) \<leftarrow> mapping_entries r, trim s \<noteq> []]"

section \<open>Decimal rendering\<close>

lemma floor_rat_numeral [simp]:
  "\<lfloor>numeral a / numeral b :: rat\<rfloor> = numeral a div numeral b"
  using floor_divide_of_int_eq [of "numeral a" "numeral b", where ?'a = rat] by simp

lemma show_nat_digit: "n < 10 \<Longrightarrow> show_nat n = [digit_char n]"
  by (subst show_nat.simps) simp

lemma show_nat_step: "\<not> n < 10 \<Longrightarrow> show_nat n = show_nat (n div 10) @ [digit_char (n mod 10)]"
  by (subst show_nat.simps) simp

lemma show_nat_nonempty: "show_nat n \<noteq> []"
  by (subst show_nat.simps) simp

lemma toFixed1_one_decimal:
  assumes "0 \<le> x" and "x < 10 ^ 21"
  shows "toFixed1 toStr x = one_decimal (nat (nearest_tenth x))"
proof (cases "nat (nearest_tenth x) < 10")
  case True
  then show ?thesis using assms
    by (simp add: toFixed1_def one_decimal_def Let_def show_nat_digit digit_char_def)
next
  case False
  then show ?thesis using assms
    by (simp add: toFixed1_def one_decimal_def Let_def show_nat_step show_nat_digit show_nat_nonempty)
qed

lemma nearest_tenth_nearest:
  "\<bar>of_int (nearest_tenth x) / 10 - x\<bar> \<le> \<bar>of_int k / 10 - x\<bar>"
proof -
  define n where "n = nearest_tenth x"
  have lo: "of_int n \<le> x * 10 + 1 / 2" and hi: "x * 10 + 1 / 2 < of_int n + 1"
    unfolding n_def nearest_tenth_def by linarith+
  consider "k \<le> n - 1" | "k = n" | "n + 1 \<le> k" by linarith
  then have "\<bar>of_int n - x * 10\<bar> \<le> \<bar>of_int k - x * 10\<bar>"
  proof cases
    case 1
    then have "(of_int k :: rat) \<le> of_int n - 1"
      by (metis of_int_le_iff of_int_diff of_int_1)
    with lo hi show ?thesis by linarith
  next
    case 2
    then show ?thesis by simp
  next
    case 3
    then have "(of_int n :: rat) + 1 \<le> of_int k"
      by (metis of_int_le_iff of_int_add of_int_1)
    with lo hi show ?thesis by linarith
  qed
  then have "\<bar>of_int n - x * 10\<bar> / 10 \<le> \<bar>of_int k - x * 10\<bar> / 10"
    by (simp add: divide_right_mono)
  moreover have "\<bar>of_int j - x * 10\<bar> / 10 = \<bar>of_int j / 10 - x\<bar>" for j :: int
  proof -
    have "of_int j / 10 - x = (of_int j - x * 10) / 10" by (simp add: diff_divide_distrib)
    then show ?thesis by (simp only: abs_divide)
  qed
  ultimately show ?thesis by (simp add: n_def)
qed

lemma ratingValues_of_values: "ratingValues_of (map snd kvs) = [x. (k, JNum x) \<leftarrow> kvs, 0 < x]"
  by (induction kvs) (auto simp: ratingValues_of_def positive_number_def split: jsval.splits)

lemma of_char_digit_char: "d < 10 \<Longrightarrow> of_char (digit_char d) = 48 + d"
proof -
  assume "d < 10"
  then have "d \<in> {0,1,2,3,4,5,6,7,8,9}" by auto
  then show ?thesis by (auto simp: digit_char_def)
qed

lemma read_show_nat: "read_nat (show_nat n) = n"
proof (induction n rule: show_nat.induct)
  case (1 n)
  show ?case
  proof (cases "n < 10")
    case True
    then show ?thesis by (simp add: show_nat_digit of_char_digit_char)
  next
    case False
    with 1 have "read_nat (show_nat (n div 10)) = n div 10" by simp
    with False show ?thesis
      by (simp add: show_nat_step of_char_digit_char)
  qed
qed

section \<open>Rating colour\<close>

text \<open>
  C4. \<open>getRatingColor\<close> (the spec's classifyRatingColor) splits the ratings at 4 and 3, each
  bound belonging to the upper tier: a rating of at least 4 gets the success colour (good),
  one of at least 3 and below 4 the warning colour, and one below 3 the error colour
  (critical); so 4.0 is good, 3.0 is warning and 2.999 is critical. The three colours
  differ, so the tiers partition the ratings.
\<close>

theorem getRatingColor_tiers:
  "(4 \<le> r \<longrightarrow> getRatingColor r = success)
   \<and> (3 \<le> r \<and> r < 4 \<longrightarrow> getRatingColor r = warning)
   \<and> (r < 3 \<longrightarrow> getRatingColor r = error)
   \<and> getRatingColor 4 = success
   \<and> getRatingColor 3 = warning
   \<and> getRatingColor (2999 / 1000) = error
   \<and> success \<noteq> warning \<and> warning \<noteq> error \<and> success \<noteq> error"
  by (simp add: getRatingColor_def success_def warning_def error_def)

theorem getRatingColor_tiers_witness:
  "getRatingColor 5 = success \<and> getRatingColor (7 / 2) = warning \<and> getRatingColor 1 = error"
  using getRatingColor_tiers [of 5] getRatingColor_tiers [of "7 / 2"] getRatingColor_tiers [of 1]
  by simp

section \<open>Average rating\<close>

lemma Object_values_object:
  "truthy r \<Longrightarrow> typeof r = ''object'' \<Longrightarrow> Object_values r = Inr (map snd (mapping_entries r))"
  by (cases r) (simp_all add: Object_values_def)

lemma mapping_entries_not_object:
  "\<not> (truthy r \<and> typeof r = ''object'') \<Longrightarrow> mapping_entries r = []"
  by (cases r) simp_all

lemma getAverageRating_fallback_eq:
  "getAverageRating_fallback toStr fb =
     (if positive_ratings (ratings fb) \<noteq> []
      then Inr (toFixed_number toStr (double_mean (positive_ratings (ratings fb))))
      else Inr ''0.0'')"
proof (cases "truthy (ratings fb) \<and> typeof (ratings fb) = ''object''")
  case True
  then show ?thesis
    by (simp add: getAverageRating_fallback_def Object_values_object ratingValues_of_values
        positive_ratings_def double_mean_def Let_def)
next
  case False
  then have "positive_ratings (ratings fb) = []"
    by (simp add: positive_ratings_def mapping_entries_not_object)
  with False show ?thesis
    by (auto simp add: getAverageRating_fallback_def)
qed

lemma positive_ratings_pos: "x \<in> set (positive_ratings r) \<Longrightarrow> 0 < x"
  by (auto simp: positive_ratings_def split: jsval.splits)

subsection \<open>Rounding keeps the sign\<close>

lemma pow2_pos: "0 < pow2 e"
  by (simp add: pow2_def)

lemma round_half_even_nonneg: "0 \<le> q \<Longrightarrow> 0 \<le> round_half_even q"
proof -
  assume "0 \<le> q"
  then have "0 \<le> \<lfloor>q\<rfloor>" by simp
  then show ?thesis by (simp add: round_half_even_def Let_def)
qed

lemma round_double_nonneg: "0 \<le> x \<Longrightarrow> nonneg_double (round_double x)"
proof -
  assume x: "0 \<le> x"
  have "0 \<le> of_int (round_half_even (\<bar>x\<bar> / pow2 e)) * pow2 e" for e
  proof -
    have "0 \<le> \<bar>x\<bar> / pow2 e" using pow2_pos [of e] by simp
    then have "0 \<le> round_half_even (\<bar>x\<bar> / pow2 e)" by (rule round_half_even_nonneg)
    then have "(0 :: rat) \<le> of_int (round_half_even (\<bar>x\<bar> / pow2 e))" by simp
    then show ?thesis using pow2_pos [of e] by (simp add: less_imp_le)
  qed
  with x show ?thesis by (simp add: round_double_def Let_def)
qed

lemma number_add_nonneg:
  "nonneg_double d \<Longrightarrow> 0 \<le> r \<Longrightarrow> nonneg_double (number_add d (Finite r))"
  by (cases d) (simp_all add: round_double_nonneg)

lemma foldl_number_add_nonneg:
  "nonneg_double d \<Longrightarrow> (\<And>x. x \<in> set ps \<Longrightarrow> 0 \<le> x) \<Longrightarrow>
     nonneg_double (foldl (\<lambda>sum rating. number_add sum (Finite rating)) d ps)"
  by (induction ps arbitrary: d) (simp_all add: number_add_nonneg)

lemma number_divide_nonneg:
  "nonneg_double d \<Longrightarrow> 0 < n \<Longrightarrow> nonneg_double (number_divide d (Finite n))"
  by (cases d) (simp_all add: round_double_nonneg)

lemma double_mean_nonneg:
  assumes "ps \<noteq> []" and "\<And>x. x \<in> set ps \<Longrightarrow> 0 < x"
  shows "nonneg_double (double_mean ps)"
proof -
  have "nonneg_double (foldl (\<lambda>sum rating. number_add sum (Finite rating)) (Finite 0) ps)"
    using assms(2) by (intro foldl_number_add_nonneg) (simp_all add: less_imp_le)
  moreover have "(0 :: rat) < of_nat (length ps)" using assms(1) by simp
  ultimately show ?thesis unfolding double_mean_def by (rule number_divide_nonneg)
qed

subsection \<open>The rounding is to the nearest double\<close>

text \<open>
  \<open>floor_log2\<close> is the exponent of the binade, the overflow test is the comparison with
  \<open>2^1024\<close>, and a finite result of \<open>round_double\<close> is a significand of at most 53 bits at an
  exponent of at least \<open>-1074\<close>, with no multiple of that power of two nearer to the
  argument.
\<close>

lemma pow2_power_int: "pow2 e = power_int 2 e"
  by (simp add: pow2_def power_int_def inverse_eq_divide power_one_over)

lemma pow2_add: "pow2 (a + b) = pow2 a * pow2 b"
  by (simp add: pow2_power_int power_int_add)

lemma pow2_mono: "a \<le> b \<Longrightarrow> pow2 a \<le> pow2 b"
  by (simp add: pow2_power_int power_int_increasing)

lemma pow2_nat: "pow2 (int n) = 2 ^ n"
  by (simp add: pow2_def)

lemma bit_length_bounds:
  "0 < n \<Longrightarrow> 0 < bit_length n \<and> 2 ^ nat (bit_length n - 1) \<le> n \<and> n < 2 ^ nat (bit_length n)"
proof (induction n rule: bit_length.induct)
  case (1 n)
  show ?case
  proof (cases "n div 2 = 0")
    case True
    with 1 have "n = 1" by linarith
    then show ?thesis by (simp add: bit_length.simps [of 1] bit_length.simps [of 0])
  next
    case False
    with 1 have pos: "0 < n div 2" by linarith
    define b where "b = bit_length (n div 2)"
    from 1 pos have ih: "0 < b" "2 ^ nat (b - 1) \<le> n div 2" "n div 2 < 2 ^ nat b"
      by (simp_all add: b_def)
    have bl: "bit_length n = 1 + b" using 1 by (simp add: bit_length.simps [of n] b_def)
    have e1: "nat (1 + b - 1) = Suc (nat (b - 1))" using ih(1) by simp
    have e2: "nat (1 + b) = Suc (nat b)" using ih(1) by simp
    have "2 * (n div 2) \<le> n" "n < 2 * (n div 2) + 2" by linarith+
    with ih show ?thesis unfolding bl e1 e2 by simp
  qed
qed

lemma floor_log2_bounds:
  assumes "0 < x"
  shows "pow2 (floor_log2 x) \<le> x \<and> x < pow2 (floor_log2 x + 1)"
proof (cases "1 \<le> x")
  case True
  define n where "n = \<lfloor>x\<rfloor>"
  have n: "0 < n" "of_int n \<le> x" "x < of_int n + 1" using True by (simp_all add: n_def) linarith+
  from bit_length_bounds [OF n(1)]
  have b: "0 < bit_length n" "2 ^ nat (bit_length n - 1) \<le> n" "n < 2 ^ nat (bit_length n)" by simp_all
  have fl: "floor_log2 x = bit_length n - 1" using True by (simp add: floor_log2_def n_def)
  have lo: "pow2 (bit_length n - 1) \<le> x"
  proof -
    have "pow2 (bit_length n - 1) = of_int (2 ^ nat (bit_length n - 1))"
      using b(1) by (simp add: pow2_def)
    also have "\<dots> \<le> of_int n" using b(2) by (simp only: of_int_le_iff)
    finally show ?thesis using n(2) by linarith
  qed
  have hi: "x < pow2 (bit_length n - 1 + 1)"
  proof -
    from b(3) have "n + 1 \<le> 2 ^ nat (bit_length n)" by linarith
    then have "(of_int (n + 1) :: rat) \<le> of_int (2 ^ nat (bit_length n))" by (simp only: of_int_le_iff)
    moreover have "pow2 (bit_length n - 1 + 1) = of_int (2 ^ nat (bit_length n))"
      using b(1) by (simp add: pow2_def)
    ultimately show ?thesis using n(3) by simp
  qed
  show ?thesis unfolding fl using lo hi by simp
next
  case False
  define m where "m = \<lceil>1 / x\<rceil>"
  define c where "c = bit_length (m - 1)"
  from False assms have y: "1 < 1 / x" by simp
  have m: "1 / x \<le> of_int m" "of_int m - 1 < 1 / x" by (simp_all add: m_def) linarith+
  from y m(1) have "(1 :: rat) < of_int m" by linarith
  then have m1: "0 < m - 1" by simp
  from bit_length_bounds [OF m1]
  have b: "0 < c" "2 ^ nat (c - 1) \<le> m - 1" "m - 1 < 2 ^ nat c" by (simp_all add: c_def)
  have fl: "floor_log2 x = - c" using False by (simp add: floor_log2_def m_def c_def)
  have lo: "pow2 (- c) \<le> x"
  proof -
    from b(3) have "m \<le> 2 ^ nat c" by linarith
    then have "(of_int m :: rat) \<le> of_int (2 ^ nat c)" by (simp only: of_int_le_iff)
    then have "(of_int m :: rat) \<le> 2 ^ nat c" by simp
    with m(1) have "1 / x \<le> 2 ^ nat c" by linarith
    then have "1 \<le> 2 ^ nat c * x" using assms by (simp add: field_simps)
    then have "1 / 2 ^ nat c \<le> x" by (simp add: field_simps)
    then show ?thesis using b(1) by (simp add: pow2_def)
  qed
  have hi: "x < pow2 (- c + 1)"
  proof -
    have "(of_int (2 ^ nat (c - 1)) :: rat) \<le> of_int (m - 1)" using b(2) by (simp only: of_int_le_iff)
    then have "(2 ^ nat (c - 1) :: rat) \<le> of_int m - 1" by simp
    with m(2) have "2 ^ nat (c - 1) < 1 / x" by linarith
    then have "2 ^ nat (c - 1) * x < 1" using assms by (simp add: field_simps)
    then have "x < 1 / 2 ^ nat (c - 1)" by (simp add: field_simps)
    moreover have "pow2 (- c + 1) = 1 / 2 ^ nat (c - 1)"
    proof (cases "c = 1")
      case True
      then show ?thesis by (simp add: pow2_def)
    next
      case False
      with b(1) have "\<not> 0 \<le> - c + 1" "nat (- (- c + 1)) = nat (c - 1)" by simp_all
      then show ?thesis by (simp add: pow2_def)
    qed
    ultimately show ?thesis by simp
  qed
  show ?thesis unfolding fl using lo hi by simp
qed

lemma round_half_even_nearest:
  "\<bar>of_int (round_half_even q) - q\<bar> \<le> \<bar>of_int k - q\<bar>"
proof -
  define f where "f = \<lfloor>q\<rfloor>"
  have f: "of_int f \<le> q" "q < of_int f + 1" by (simp_all add: f_def) linarith
  consider "k \<le> f" | "f + 1 \<le> k" by linarith
  then show ?thesis
  proof cases
    case 1
    then have "(of_int k :: rat) \<le> of_int f" by (simp only: of_int_le_iff)
    with f show ?thesis
      unfolding round_half_even_def Let_def f_def [symmetric]
      by (auto simp: abs_if split: if_splits)
  next
    case 2
    then have "(of_int f :: rat) + 1 \<le> of_int k"
      by (metis of_int_le_iff of_int_add of_int_1)
    with f show ?thesis
      unfolding round_half_even_def Let_def f_def [symmetric]
      by (auto simp: abs_if split: if_splits)
  qed
qed

lemma round_half_even_half: "\<bar>of_int (round_half_even q) - q\<bar> \<le> 1 / 2"
proof -
  define f where "f = \<lfloor>q\<rfloor>"
  have f: "of_int f \<le> q" "q < of_int f + 1" by (simp_all add: f_def) linarith
  then show ?thesis
    unfolding round_half_even_def Let_def f_def [symmetric]
    by (auto simp: abs_if split: if_splits)
qed

lemma round_half_even_mono_bound: "q \<le> of_int N \<Longrightarrow> round_half_even q \<le> N"
proof -
  assume "q \<le> of_int N"
  then have le: "\<lfloor>q\<rfloor> \<le> N" by (simp add: floor_le_iff)
  show ?thesis
  proof (cases "\<lfloor>q\<rfloor> = N")
    case True
    with \<open>q \<le> of_int N\<close> have "q = of_int \<lfloor>q\<rfloor>" by (metis of_int_floor_le order_antisym)
    then have "q - of_int \<lfloor>q\<rfloor> = 0" by simp
    then show ?thesis using True by (simp add: round_half_even_def Let_def)
  next
    case False
    with le have "\<lfloor>q\<rfloor> + 1 \<le> N" by linarith
    then show ?thesis by (auto simp: round_half_even_def Let_def)
  qed
qed


lemma floor_log2_zero: "floor_log2 0 = 0"
  by (simp add: floor_log2_def bit_length.simps [of "-1"])

lemma overflow_test: "0 \<le> y \<Longrightarrow> (1024 \<le> floor_log2 y) = (2 ^ 1024 \<le> y)"
proof (cases "y = 0")
  case True
  then show ?thesis by (simp add: floor_log2_zero)
next
  case False
  assume "0 \<le> y"
  with False have pos: "0 < y" by simp
  note b = floor_log2_bounds [OF pos]
  have p: "pow2 1024 = 2 ^ 1024" by (simp add: pow2_def)
  show ?thesis
  proof
    assume "1024 \<le> floor_log2 y"
    then have "pow2 1024 \<le> pow2 (floor_log2 y)" by (rule pow2_mono)
    with b show "2 ^ 1024 \<le> y" unfolding p by linarith
  next
    assume big: "2 ^ 1024 \<le> y"
    show "1024 \<le> floor_log2 y"
    proof (rule ccontr)
      assume "\<not> 1024 \<le> floor_log2 y"
      then have "floor_log2 y + 1 \<le> 1024" by simp
      then have "pow2 (floor_log2 y + 1) \<le> pow2 1024" by (rule pow2_mono)
      with b big show False unfolding p by linarith
    qed
  qed
qed

lemma scaled_below_2_53:
  assumes "0 < a" and "e = max (floor_log2 a - 52) (- 1074)"
  shows "a / pow2 e \<le> 2 ^ 53"
proof -
  have p53: "pow2 53 = 2 ^ 53" by (simp add: pow2_def)
  have "floor_log2 a + 1 \<le> e + 53" using assms(2) by simp
  then have "pow2 (floor_log2 a + 1) \<le> pow2 (e + 53)" by (rule pow2_mono)
  also have "\<dots> = pow2 e * 2 ^ 53" by (simp only: pow2_add p53)
  finally have "a \<le> pow2 e * 2 ^ 53" using floor_log2_bounds [OF assms(1)] by linarith
  then show ?thesis using pow2_pos [of e] by (simp add: field_simps)
qed

lemma round_double_Finite:
  assumes "round_double x = Finite y"
  shows "\<exists>n e. y = of_int n * pow2 e \<and> \<bar>n\<bar> \<le> 2 ^ 53 \<and> - 1074 \<le> e \<and> \<bar>y\<bar> < 2 ^ 1024
           \<and> (\<forall>k. \<bar>y - x\<bar> \<le> \<bar>of_int k * pow2 e - x\<bar>)"
proof (cases "x = 0")
  case True
  with assms have "y = 0" by (simp add: round_double_def)
  with True have "y = of_int 0 * pow2 0 \<and> \<bar>0 :: int\<bar> \<le> 2 ^ 53 \<and> - 1074 \<le> (0 :: int) \<and> \<bar>y\<bar> < 2 ^ 1024
      \<and> (\<forall>k. \<bar>y - x\<bar> \<le> \<bar>of_int k * pow2 0 - x\<bar>)" by simp
  then show ?thesis by blast
next
  case False
  define a where "a = \<bar>x\<bar>"
  define e where "e = max (floor_log2 a - 52) (- 1074)"
  define n where "n = round_half_even (a / pow2 e)"
  define y0 where "y0 = of_int n * pow2 e"
  have a: "0 < a" using False by (simp add: a_def)
  have p: "0 < pow2 e" by (rule pow2_pos)
  have n0: "0 \<le> n" unfolding n_def using a p by (intro round_half_even_nonneg) simp
  have n53: "n \<le> 2 ^ 53"
  proof -
    have "a / pow2 e \<le> of_int (2 ^ 53)" using scaled_below_2_53 [OF a e_def] by simp
    then show ?thesis unfolding n_def by (rule round_half_even_mono_bound)
  qed
  have y0: "0 \<le> y0" using n0 p by (simp add: y0_def)
  from assms False have fin: "\<not> 1024 \<le> floor_log2 y0" and y: "y = (if x < 0 then - y0 else y0)"
    by (auto simp: round_double_def Let_def a_def e_def n_def y0_def split: if_splits)
  from fin have small: "y0 < 2 ^ 1024" using overflow_test [OF y0] by simp
  have near: "\<bar>y0 - a\<bar> \<le> \<bar>of_int k * pow2 e - a\<bar>" for k
  proof -
    have "\<bar>of_int n - a / pow2 e\<bar> \<le> \<bar>of_int k - a / pow2 e\<bar>"
      unfolding n_def by (rule round_half_even_nearest)
    then have "\<bar>of_int n - a / pow2 e\<bar> * pow2 e \<le> \<bar>of_int k - a / pow2 e\<bar> * pow2 e"
      using p by (simp add: mult_right_mono)
    moreover have "\<bar>of_int j - a / pow2 e\<bar> * pow2 e = \<bar>of_int j * pow2 e - a\<bar>" for j :: int
    proof -
      have "\<bar>of_int j - a / pow2 e\<bar> * pow2 e = \<bar>(of_int j - a / pow2 e) * pow2 e\<bar>"
        using p by (simp add: abs_mult)
      also have "(of_int j - a / pow2 e) * pow2 e = of_int j * pow2 e - a"
        using p by (simp add: field_simps)
      finally show ?thesis .
    qed
    ultimately show ?thesis by (simp add: y0_def)
  qed
  show ?thesis
  proof (cases "x < 0")
    case True
    have "\<bar>y - x\<bar> \<le> \<bar>of_int k * pow2 e - x\<bar>" for k
    proof -
      have "\<bar>y - x\<bar> = \<bar>y0 - a\<bar>" using True y by (simp add: a_def)
      also have "\<dots> \<le> \<bar>of_int (- k) * pow2 e - a\<bar>" by (rule near)
      also have "\<dots> = \<bar>of_int k * pow2 e - x\<bar>" using True by (simp add: a_def)
      finally show ?thesis .
    qed
    moreover have "y = of_int (- n) * pow2 e" using True y by (simp add: y0_def)
    moreover have "\<bar>- n\<bar> \<le> 2 ^ 53" using n0 n53 by simp
    moreover have "\<bar>y\<bar> < 2 ^ 1024" using True y y0 small by simp
    moreover have "- 1074 \<le> e" by (simp add: e_def)
    ultimately show ?thesis by blast
  next
    case False
    have "\<bar>y - x\<bar> \<le> \<bar>of_int k * pow2 e - x\<bar>" for k
      using False y near [of k] by (simp add: a_def)
    moreover have "y = of_int n * pow2 e" using False y by (simp add: y0_def)
    moreover have "\<bar>n\<bar> \<le> 2 ^ 53" using n0 n53 by simp
    moreover have "\<bar>y\<bar> < 2 ^ 1024" using False y y0 small by simp
    moreover have "- 1074 \<le> e" by (simp add: e_def)
    ultimately show ?thesis by blast
  qed
qed

lemma round_double_examples:
  "round_double (1 / 10) = Finite (3602879701896397 / 2 ^ 55)"
  "round_double (87 / 20) = Finite (4897664594765414 / 2 ^ 50)"
  "round_double (2 ^ 53 + 1) = Finite (2 ^ 53)"
  "round_double (2 ^ 53 + 3) = Finite (2 ^ 53 + 4)"
  "round_double (- 1 / 3) = Finite (- (6004799503160661 / 2 ^ 54))"
  by code_simp+

subsection \<open>Exact partial sums\<close>

lemma foldl_number_add_exact:
  "(\<And>i. i \<le> length xs \<Longrightarrow> is_double (a + sum_list (take i xs))) \<Longrightarrow>
     foldl (\<lambda>sum rating. number_add sum (Finite rating)) (Finite a) xs = Finite (a + sum_list xs)"
proof (induction xs arbitrary: a)
  case Nil
  then show ?case by simp
next
  case (Cons x xs)
  from Cons.prems [of 1] have step: "round_double (a + x) = Finite (a + x)"
    by (simp add: is_double_def)
  have "is_double (a + x + sum_list (take i xs))" if "i \<le> length xs" for i
    using Cons.prems [of "Suc i"] that by (simp add: add.assoc)
  then have "foldl (\<lambda>sum rating. number_add sum (Finite rating)) (Finite (a + x)) xs
      = Finite (a + x + sum_list xs)"
    by (rule Cons.IH)
  then show ?case by (simp add: step add.assoc)
qed

lemma double_mean_exact:
  assumes "ps \<noteq> []" and "\<And>i. i \<le> length ps \<Longrightarrow> is_double (sum_list (take i ps))"
  shows "double_mean ps = round_double (sum_list ps / of_nat (length ps))"
proof -
  have "foldl (\<lambda>sum rating. number_add sum (Finite rating)) (Finite 0) ps = Finite (0 + sum_list ps)"
    using assms(2) by (intro foldl_number_add_exact) simp
  then show ?thesis using assms(1) by (simp add: double_mean_def)
qed

lemma double_mean_2_4: "double_mean [2, 4] = Finite 3"
  by code_simp

lemma double_mean_5_2: "double_mean [5, 2] = Finite (7 / 2)"
  by code_simp

text \<open>
  C1, amended. When no primary rating is set (absent, or not greater than 0) and the
  named-ratings mapping holds at least one number greater than 0, \<open>getAverageRating\<close> returns
  \<open>toFixed(1)\<close> of the mean of exactly those numbers as double arithmetic computes it (the sum
  accumulated from the left, then divided by the count, each operation rounded to the
  nearest double). When that mean is finite and below \<open>10^21\<close> the result is the decimal
  numeral, with one fractional digit, of the tenth nearest to the computed mean, the larger
  of two equally near. When every partial sum is a double the computed mean is the double
  nearest to the exact mean. For ratings \<open>{a: 2, b: 4}\<close> the result is \<open>3.0\<close>.
\<close>

theorem getAverageRating_mean:
  assumes "primaryRating fb = None \<or> (\<exists>r. primaryRating fb = Some r \<and> \<not> 0 < r)"
    and "ps = positive_ratings (ratings fb)"
    and "ps \<noteq> []"
  shows "getAverageRating toStr fb = Inr (toFixed_number toStr (double_mean ps))
    \<and> (\<forall>m. double_mean ps = Finite m \<and> m < 10 ^ 21 \<longrightarrow>
          0 \<le> m
          \<and> getAverageRating toStr fb = Inr (one_decimal (nat (nearest_tenth m)))
          \<and> (\<forall>k. \<bar>of_int (nearest_tenth m) / 10 - m\<bar> \<le> \<bar>of_int k / 10 - m\<bar>))
    \<and> ((\<forall>i \<le> length ps. is_double (sum_list (take i ps))) \<longrightarrow>
          double_mean ps = round_double (sum_list ps / of_nat (length ps)))
    \<and> (ratings fb = JObj [(''a'', JNum 2), (''b'', JNum 4)] \<longrightarrow>
          getAverageRating toStr fb = Inr ''3.0'')"
proof -
  have fall: "getAverageRating toStr fb = getAverageRating_fallback toStr fb"
    using assms(1) by (auto simp: getAverageRating_def)
  have res: "getAverageRating toStr fb = Inr (toFixed_number toStr (double_mean ps))"
    using assms(2,3) by (simp add: fall getAverageRating_fallback_eq)
  have nonneg: "nonneg_double (double_mean ps)"
    using assms(2,3) positive_ratings_pos by (intro double_mean_nonneg) auto
  have dec: "0 \<le> m \<and> getAverageRating toStr fb = Inr (one_decimal (nat (nearest_tenth m)))
      \<and> (\<forall>k. \<bar>of_int (nearest_tenth m) / 10 - m\<bar> \<le> \<bar>of_int k / 10 - m\<bar>)"
    if "double_mean ps = Finite m" and "m < 10 ^ 21" for m
  proof -
    from nonneg that(1) have "0 \<le> m" by simp
    with that show ?thesis
      by (simp add: res toFixed1_one_decimal nearest_tenth_nearest)
  qed
  have exact: "double_mean ps = round_double (sum_list ps / of_nat (length ps))"
    if "\<forall>i \<le> length ps. is_double (sum_list (take i ps))"
    using assms(3) that by (intro double_mean_exact) simp_all
  have ex: "getAverageRating toStr fb = Inr ''3.0''"
    if "ratings fb = JObj [(''a'', JNum 2), (''b'', JNum 4)]"
  proof -
    have "ps = [2, 4]" using that assms(2) by (simp add: positive_ratings_def)
    then show ?thesis
      by (simp add: res double_mean_2_4 toFixed1_one_decimal one_decimal_def nearest_tenth_def
          show_nat_digit digit_char_def)
  qed
  show ?thesis using res dec exact ex by blast
qed

theorem getAverageRating_mean_witness:
  "getAverageRating (\<lambda>x. [])
     \<lparr>isEscalated = False, escalationReason = None, severity = None,
      ratings = JObj [(''service'', JNum 5), (''food'', JNum 0), (''staff'', JStr ''ok''),
                      (''delivery'', JNum 2)],
      comments = JNull, primaryRating = None, primaryComment = None\<rparr>
   = Inr ''3.5''"
  using getAverageRating_mean [of
      "\<lparr>isEscalated = False, escalationReason = None, severity = None,
        ratings = JObj [(''service'', JNum 5), (''food'', JNum 0), (''staff'', JStr ''ok''),
                        (''delivery'', JNum 2)],
        comments = JNull, primaryRating = None, primaryComment = None\<rparr>"
      "[5, 2]" "\<lambda>x. []", THEN conjunct1]
  by (simp add: positive_ratings_def double_mean_5_2 toFixed1_one_decimal one_decimal_def
      nearest_tenth_def show_nat_digit digit_char_def)

text \<open>
  Against C1 as stated: the ratings 4.25, 4.5, 4.5, 4.5 and 4 have the exact mean 4.35,
  which rounds to 4.4; their partial sums are exact, but 4.35 is no double, the division
  yields the double just below it, and \<open>getAverageRating\<close> returns \<open>4.3\<close>.
\<close>

theorem getAverageRating_mean_counterexample:
  "getAverageRating unused_toString half_star_feedback = Inr ''4.3''
   \<and> primaryRating half_star_feedback = None
   \<and> sum_list (positive_ratings (ratings half_star_feedback))
       / of_nat (length (positive_ratings (ratings half_star_feedback))) = 87 / 20
   \<and> one_decimal (nat (nearest_tenth (87 / 20))) = ''4.4''"
  by code_simp

text \<open>
  C2. When the primary rating is present and greater than 0, \<open>getAverageRating\<close> returns
  \<open>toFixed(1)\<close> of it (below \<open>10^21\<close> the decimal numeral of the nearest tenth) whatever the
  \<open>ratings\<close> field holds; with a primary rating of 4.5 the result is \<open>4.5\<close>.
\<close>

theorem getAverageRating_primary:
  assumes "primaryRating fb = Some r" and "0 < r"
  shows "getAverageRating toStr fb = Inr (toFixed1 toStr r)
    \<and> getAverageRating toStr (fb\<lparr>ratings := v\<rparr>) = getAverageRating toStr fb
    \<and> (r < 10 ^ 21 \<longrightarrow> getAverageRating toStr fb = Inr (one_decimal (nat (nearest_tenth r))))
    \<and> (\<forall>k. \<bar>of_int (nearest_tenth r) / 10 - r\<bar> \<le> \<bar>of_int k / 10 - r\<bar>)
    \<and> (r = 9 / 2 \<longrightarrow> getAverageRating toStr fb = Inr ''4.5'')"
proof -
  have res: "getAverageRating toStr fb = Inr (toFixed1 toStr r)"
    using assms by (simp add: getAverageRating_def)
  have upd: "getAverageRating toStr (fb\<lparr>ratings := v\<rparr>) = getAverageRating toStr fb"
    using assms by (simp add: getAverageRating_def)
  have dec: "r < 10 ^ 21 \<Longrightarrow> getAverageRating toStr fb = Inr (one_decimal (nat (nearest_tenth r)))"
    using assms(2) by (simp add: res toFixed1_one_decimal)
  have ex: "getAverageRating toStr fb = Inr ''4.5''" if "r = 9 / 2"
    unfolding res that
    by (simp add: toFixed1_one_decimal one_decimal_def nearest_tenth_def show_nat_digit
        digit_char_def)
  show ?thesis using res upd dec ex nearest_tenth_nearest by blast
qed

theorem getAverageRating_primary_witness:
  "getAverageRating (\<lambda>x. [])
     \<lparr>isEscalated = True, escalationReason = None, severity = Some ''high'',
      ratings = JObj [(''a'', JNum 1)],
      comments = JNull, primaryRating = Some (9 / 2), primaryComment = None\<rparr>
   = Inr ''4.5''"
  using getAverageRating_primary [of
      "\<lparr>isEscalated = True, escalationReason = None, severity = Some ''high'',
        ratings = JObj [(''a'', JNum 1)],
        comments = JNull, primaryRating = Some (9 / 2), primaryComment = None\<rparr>"
      "9 / 2" "\<lambda>x. []", THEN conjunct2, THEN conjunct2, THEN conjunct2, THEN conjunct2]
  by simp

text \<open>
  C3. When no primary rating is set and the named-ratings mapping holds no number greater
  than 0 (or the \<open>ratings\<close> field holds no mapping at all), \<open>getAverageRating\<close> returns exactly
  \<open>0.0\<close>; and on every record it returns a string: no path of it throws.
\<close>

theorem getAverageRating_default:
  "((primaryRating fb = None \<or> (\<exists>r. primaryRating fb = Some r \<and> \<not> 0 < r))
      \<and> positive_ratings (ratings fb) = []
     \<longrightarrow> getAverageRating toStr fb = Inr ''0.0'')
   \<and> (\<exists>s. getAverageRating toStr fb = Inr s)"
proof -
  have total: "\<exists>s. getAverageRating_fallback toStr fb = Inr s"
    by (simp add: getAverageRating_fallback_eq)
  have "\<exists>s. getAverageRating toStr fb = Inr s"
    using total by (simp add: getAverageRating_def split: option.splits)
  moreover have "getAverageRating toStr fb = Inr ''0.0''"
    if "primaryRating fb = None \<or> (\<exists>r. primaryRating fb = Some r \<and> \<not> 0 < r)"
      and "positive_ratings (ratings fb) = []"
    using that by (auto simp: getAverageRating_def getAverageRating_fallback_eq)
  ultimately show ?thesis by blast
qed

theorem getAverageRating_default_witness:
  "getAverageRating (\<lambda>x. [])
     \<lparr>isEscalated = False, escalationReason = None, severity = None,
      ratings = JObj [(''service'', JNum 0), (''note'', JStr ''5'')],
      comments = JNull, primaryRating = None, primaryComment = None\<rparr>
   = Inr ''0.0''"
  using getAverageRating_default [of
      "\<lparr>isEscalated = False, escalationReason = None, severity = None,
        ratings = JObj [(''service'', JNum 0), (''note'', JStr ''5'')],
        comments = JNull, primaryRating = None, primaryComment = None\<rparr>"
      "\<lambda>x. []"]
  by (simp add: positive_ratings_def)

section \<open>Display ratings\<close>

lemma Object_entries_object:
  "truthy r \<Longrightarrow> typeof r = ''object'' \<Longrightarrow> Object_entries r = Inr (mapping_entries r)"
  by (cases r) simp_all

lemma filter_positive_number:
  "filter (\<lambda>(k, v). positive_number v) kvs = [(k, JNum x). (k, JNum x) \<leftarrow> kvs, 0 < x]"
proof (induction kvs)
  case Nil
  show ?case by simp
next
  case (Cons a kvs)
  obtain k v where a: "a = (k, v)" by (cases a)
  show ?case unfolding a using Cons.IH by (cases v) (simp_all add: positive_number_def)
qed

lemma positive_entries_subseq: "subseq (positive_entries r) (mapping_entries r)"
  unfolding positive_entries_def filter_positive_number [symmetric] by simp

lemma positive_entries_positive:
  "(k, v) \<in> set (positive_entries r) \<Longrightarrow> \<exists>x. v = JNum x \<and> 0 < x"
  by (auto simp: positive_entries_def split: jsval.splits if_splits)

lemma kv_listDisplayRatings:
  "map (\<lambda>e. (key e, rvalue e)) (listDisplayRatings up n r) = take n (positive_entries r)"
  by (simp add: listDisplayRatings_def comp_def case_prod_unfold)

lemma subseq_take: "subseq (take n xs) xs"
  by (metis append_take_drop_id subseq_order.order_refl list_emb_append_mono list_emb_Nil append_Nil2)

lemma set_property_fresh: "k \<notin> fst ` set kvs \<Longrightarrow> set_property kvs k v = kvs @ [(k, v)]"
  by (induction kvs) auto

lemma foldl_set_property_distinct:
  "distinct (map fst (kvs @ ins)) \<Longrightarrow>
     foldl (\<lambda>kvs (k, v). set_property kvs k v) kvs ins = kvs @ ins"
proof (induction ins arbitrary: kvs)
  case Nil
  then show ?case by simp
next
  case (Cons a ins)
  obtain k v where a: "a = (k, v)" by (cases a)
  from Cons.prems a have fresh: "k \<notin> fst ` set kvs" by auto
  from Cons.prems a have "distinct (map fst ((kvs @ [(k, v)]) @ ins))" by auto
  then have "foldl (\<lambda>kvs (k, v). set_property kvs k v) (kvs @ [(k, v)]) ins = (kvs @ [(k, v)]) @ ins"
    by (rule Cons.IH)
  then show ?case by (simp add: a set_property_fresh [OF fresh])
qed

lemma own_property_order_names:
  "(\<And>k. k \<in> fst ` set kvs \<Longrightarrow> \<not> is_array_index k) \<Longrightarrow> own_property_order kvs = kvs"
proof -
  assume names: "\<And>k. k \<in> fst ` set kvs \<Longrightarrow> \<not> is_array_index k"
  then have none: "filter (\<lambda>(k, v). is_array_index k) kvs = []"
    by (fastforce simp: filter_empty_conv)
  from names have all: "filter (\<lambda>(k, v). \<not> is_array_index k) kvs = kvs"
    by (fastforce simp: filter_id_conv)
  show ?thesis by (simp add: own_property_order_def none all)
qed

lemma mapping_entries_insertions:
  assumes "distinct (map fst ins)" and "\<And>k. k \<in> fst ` set ins \<Longrightarrow> \<not> is_array_index k"
  shows "mapping_entries (object_of_insertions ins) = ins"
proof -
  have "foldl (\<lambda>kvs (k, v). set_property kvs k v) [] ins = [] @ ins"
    using assms(1) by (intro foldl_set_property_distinct) simp
  then show ?thesis using assms(2) by (simp add: object_of_insertions_def own_property_order_names)
qed

text \<open>
  C5, amended. \<open>getAvailableRatings\<close> returns the entries of the named-ratings mapping whose
  value is a number greater than 0, cut to the first five, in the order in which
  \<open>Object.entries\<close> enumerates the mapping (a subsequence of its entries, nothing sorted by the
  function): the keys that are array indices first, in ascending numeric order, then the
  other keys in insertion order, so that insertion order is kept when no key is an array
  index. Each label is the key with its first character upper-cased and each value the
  number as it was. Of seven positive ratings exactly the first five of that order are
  returned.
\<close>

theorem getAvailableRatings_display:
  "\<exists>res. getAvailableRatings upper fb = Inr res
     \<and> res = listDisplayRatings upper 5 (ratings fb)
     \<and> length res \<le> 5
     \<and> map (\<lambda>e. (key e, rvalue e)) res = take 5 (positive_entries (ratings fb))
     \<and> subseq (map (\<lambda>e. (key e, rvalue e)) res) (mapping_entries (ratings fb))
     \<and> (\<forall>e \<in> set res. label e = upper (take 1 (key e)) @ drop 1 (key e)
                          \<and> (\<exists>x. rvalue e = JNum x \<and> 0 < x))
     \<and> (length (positive_entries (ratings fb)) = 7 \<longrightarrow> length res = 5)
     \<and> (\<forall>ins. ratings fb = object_of_insertions ins \<longrightarrow>
           mapping_entries (ratings fb)
             = own_property_order (foldl (\<lambda>kvs (k, v). set_property kvs k v) [] ins))
     \<and> (\<forall>ins. ratings fb = object_of_insertions ins \<and> distinct (map fst ins)
             \<and> (\<forall>k \<in> fst ` set ins. \<not> is_array_index k) \<longrightarrow>
           res = insertion_order_ratings upper 5 ins)"
proof -
  let ?res = "listDisplayRatings upper 5 (ratings fb)"
  have code: "getAvailableRatings upper fb = Inr ?res"
  proof (cases "truthy (ratings fb) \<and> typeof (ratings fb) = ''object''")
    case True
    then show ?thesis
      by (simp add: getAvailableRatings_def Object_entries_object filter_positive_number
          listDisplayRatings_def positive_entries_def charAt0_def slice1_def)
  next
    case False
    then have "mapping_entries (ratings fb) = []" by (rule mapping_entries_not_object)
    with False show ?thesis
      by (auto simp: getAvailableRatings_def listDisplayRatings_def positive_entries_def)
  qed
  have len: "length ?res \<le> 5" by (simp add: listDisplayRatings_def)
  have kv: "map (\<lambda>e. (key e, rvalue e)) ?res = take 5 (positive_entries (ratings fb))"
    by (rule kv_listDisplayRatings)
  have sub: "subseq (map (\<lambda>e. (key e, rvalue e)) ?res) (mapping_entries (ratings fb))"
    unfolding kv using subseq_take positive_entries_subseq by (rule subseq_order.order_trans)
  have each: "label e = upper (take 1 (key e)) @ drop 1 (key e) \<and> (\<exists>x. rvalue e = JNum x \<and> 0 < x)"
    if "e \<in> set ?res" for e
  proof -
    from that obtain k v where kv: "(k, v) \<in> set (take 5 (positive_entries (ratings fb)))"
      and e: "e = \<lparr>key = k, label = upper (take 1 k) @ drop 1 k, rvalue = v\<rparr>"
      by (auto simp: listDisplayRatings_def)
    from kv have "(k, v) \<in> set (positive_entries (ratings fb))" by (rule in_set_takeD)
    then have "\<exists>x. v = JNum x \<and> 0 < x" by (rule positive_entries_positive)
    with e show ?thesis by simp
  qed
  have seven: "length ?res = 5" if "length (positive_entries (ratings fb)) = 7"
    using that by (simp add: listDisplayRatings_def)
  have order: "mapping_entries (ratings fb)
      = own_property_order (foldl (\<lambda>kvs (k, v). set_property kvs k v) [] ins)"
    if "ratings fb = object_of_insertions ins" for ins
    using that by (simp add: object_of_insertions_def)
  have names: "?res = insertion_order_ratings upper 5 ins"
    if "ratings fb = object_of_insertions ins" and "distinct (map fst ins)"
      and "\<forall>k \<in> fst ` set ins. \<not> is_array_index k" for ins
  proof -
    from that(2,3) have "mapping_entries (object_of_insertions ins) = ins"
      by (intro mapping_entries_insertions) auto
    with that(1) have "mapping_entries (ratings fb) = ins" by simp
    then show ?thesis
      by (simp add: listDisplayRatings_def insertion_order_ratings_def positive_entries_def
          filter_positive_number)
  qed
  show ?thesis using code len kv sub each seven order names by blast
qed

theorem getAvailableRatings_display_witness:
  "getAvailableRatings toUpperCase_ascii
     \<lparr>isEscalated = False, escalationReason = None, severity = None,
      ratings = JObj [(''service'', JNum 2), (''food'', JNum 0), (''staff'', JNum (7 / 2)),
                      (''cleanliness'', JNum 1), (''delivery'', JNum 5), (''packaging'', JNum 4),
                      (''driver'', JNum 3), (''washroom'', JNum 1)],
      comments = JNull, primaryRating = None, primaryComment = None\<rparr>
   = Inr [\<lparr>key = ''service'', label = ''Service'', rvalue = JNum 2\<rparr>,
          \<lparr>key = ''staff'', label = ''Staff'', rvalue = JNum (7 / 2)\<rparr>,
          \<lparr>key = ''cleanliness'', label = ''Cleanliness'', rvalue = JNum 1\<rparr>,
          \<lparr>key = ''delivery'', label = ''Delivery'', rvalue = JNum 5\<rparr>,
          \<lparr>key = ''packaging'', label = ''Packaging'', rvalue = JNum 4\<rparr>]"
  using getAvailableRatings_display [of toUpperCase_ascii
      "\<lparr>isEscalated = False, escalationReason = None, severity = None,
        ratings = JObj [(''service'', JNum 2), (''food'', JNum 0), (''staff'', JNum (7 / 2)),
                        (''cleanliness'', JNum 1), (''delivery'', JNum 5), (''packaging'', JNum 4),
                        (''driver'', JNum 3), (''washroom'', JNum 1)],
        comments = JNull, primaryRating = None, primaryComment = None\<rparr>"]
  by (auto simp add: listDisplayRatings_def positive_entries_def toUpperCase_ascii_def)

text \<open>
  Against C5 as stated: ratings inserted under the keys \<open>service\<close>, \<open>10\<close> and \<open>2\<close>, in that
  order, are returned under \<open>2\<close>, \<open>10\<close>, \<open>service\<close>, not in insertion order.
\<close>

theorem getAvailableRatings_display_counterexample:
  "getAvailableRatings toUpperCase_ascii index_key_feedback
     = Inr [\<lparr>key = ''2'', label = ''2'', rvalue = JNum 4\<rparr>,
            \<lparr>key = ''10'', label = ''10'', rvalue = JNum 3\<rparr>,
            \<lparr>key = ''service'', label = ''Service'', rvalue = JNum 2\<rparr>]
   \<and> ratings index_key_feedback
       = object_of_insertions [(''service'', JNum 2), (''10'', JNum 3), (''2'', JNum 4)]
   \<and> getAvailableRatings toUpperCase_ascii index_key_feedback
     \<noteq> Inr (insertion_order_ratings toUpperCase_ascii 5
              [(''service'', JNum 2), (''10'', JNum 3), (''2'', JNum 4)])"
  by code_simp

section \<open>Display comment\<close>

lemma trim_nonempty_iff: "trim s \<noteq> [] \<longleftrightarrow> (\<exists>c \<in> set s. \<not> is_whitespace c)"
proof -
  have "trim s \<noteq> [] \<longleftrightarrow> dropWhile is_whitespace (rev (dropWhile is_whitespace s)) \<noteq> []"
    by (simp add: trim_def)
  also have "\<dots> \<longleftrightarrow> (\<exists>c \<in> set (dropWhile is_whitespace s). \<not> is_whitespace c)"
    by (simp add: dropWhile_eq_Nil_conv)
  also have "\<dots> \<longleftrightarrow> dropWhile is_whitespace s \<noteq> []"
    by (metis dropWhile_eq_Nil_conv dropWhile_idem)
  also have "\<dots> \<longleftrightarrow> (\<exists>c \<in> set s. \<not> is_whitespace c)"
    by (simp add: dropWhile_eq_Nil_conv)
  finally show ?thesis .
qed

lemma commentValues_of_values:
  "commentValues_of (map snd kvs) = [s. (k, JStr s) \<leftarrow> kvs, trim s \<noteq> []]"
  by (induction kvs) (auto simp: commentValues_of_def split: jsval.splits)

lemma getAllComments_fallback_eq:
  "getAllComments_fallback fb =
     Inr (if nonblank_comments (comments fb) = [] then None
          else Some (join '' | '' (nonblank_comments (comments fb))))"
proof (cases "truthy (comments fb) \<and> typeof (comments fb) = ''object''")
  case True
  then show ?thesis
    by (simp add: getAllComments_fallback_def Object_values_object commentValues_of_values
        nonblank_comments_def Let_def)
next
  case False
  then have "nonblank_comments (comments fb) = []"
    by (simp add: nonblank_comments_def mapping_entries_not_object)
  with False show ?thesis
    by (auto simp add: getAllComments_fallback_def)
qed

text \<open>
  C6. \<open>getAllComments\<close> returns the primary comment unchanged when it is present and
  non-empty after trimming (it holds a character that is not white space); otherwise the
  string values of the named-comments mapping that are non-empty after trimming, in order,
  joined with \<open>" | "\<close>; and null when there is none.
\<close>

theorem getAllComments_select:
  "(\<forall>c. primaryComment fb = Some c \<and> trim c \<noteq> [] \<longrightarrow> getAllComments fb = Inr (Some c))
   \<and> (\<not> (\<exists>c. primaryComment fb = Some c \<and> trim c \<noteq> []) \<longrightarrow>
        getAllComments fb =
          Inr (if nonblank_comments (comments fb) = [] then None
               else Some (join '' | '' (nonblank_comments (comments fb)))))
   \<and> (\<forall>s. trim s \<noteq> [] \<longleftrightarrow> (\<exists>c \<in> set s. \<not> is_whitespace c))
   \<and> (\<forall>x y ys. join '' | '' [] = [] \<and> join '' | '' [x] = x
          \<and> join '' | '' (x # y # ys) = x @ '' | '' @ join '' | '' (y # ys))"
proof -
  have empty: "trim [] = []" by (simp add: trim_def)
  have a: "getAllComments fb = Inr (Some c)" if "primaryComment fb = Some c" "trim c \<noteq> []" for c
    using that empty by (auto simp: getAllComments_def)
  have b: "getAllComments fb = getAllComments_fallback fb"
    if "\<not> (\<exists>c. primaryComment fb = Some c \<and> trim c \<noteq> [])"
    using that by (auto simp: getAllComments_def split: option.splits)
  show ?thesis using a b getAllComments_fallback_eq trim_nonempty_iff by simp
qed

theorem getAllComments_select_witness:
  "getAllComments
     \<lparr>isEscalated = False, escalationReason = None, severity = None, ratings = JNull,
      comments = JObj [(''service'', JStr ''slow'')], primaryRating = None,
      primaryComment = Some '' cold food ''\<rparr> = Inr (Some '' cold food '')
   \<and> getAllComments
     \<lparr>isEscalated = False, escalationReason = None, severity = None, ratings = JNull,
      comments = JObj [(''service'', JStr ''slow''), (''quality'', JStr ''  ''),
                       (''count'', JNum 2), (''delivery'', JStr ''late'')],
      primaryRating = None, primaryComment = Some '' ''\<rparr> = Inr (Some ''slow | late'')
   \<and> getAllComments
     \<lparr>isEscalated = False, escalationReason = None, severity = None, ratings = JNull,
      comments = JObj [(''quality'', JStr '' '')], primaryRating = None,
      primaryComment = None\<rparr> = Inr None"
proof -
  have ws: "is_whitespace CHR '' ''" "\<not> is_whitespace CHR ''c''" "\<not> is_whitespace CHR ''s''"
    "\<not> is_whitespace CHR ''l''"
    by (simp_all add: is_whitespace_def)
  show ?thesis
    using getAllComments_select [of
        "\<lparr>isEscalated = False, escalationReason = None, severity = None, ratings = JNull,
          comments = JObj [(''service'', JStr ''slow'')], primaryRating = None,
          primaryComment = Some '' cold food ''\<rparr>"]
      getAllComments_select [of
        "\<lparr>isEscalated = False, escalationReason = None, severity = None, ratings = JNull,
          comments = JObj [(''service'', JStr ''slow''), (''quality'', JStr ''  ''),
                           (''count'', JNum 2), (''delivery'', JStr ''late'')],
          primaryRating = None, primaryComment = Some '' ''\<rparr>"]
      getAllComments_select [of
        "\<lparr>isEscalated = False, escalationReason = None, severity = None, ratings = JNull,
          comments = JObj [(''quality'', JStr '' '')], primaryRating = None,
          primaryComment = None\<rparr>"]
    by (simp add: nonblank_comments_def trim_def ws)
qed

section \<open>Severity presentation\<close>

text \<open>
  C7. The severity presentation is defined for every severity, absent or any string: the
  triple for \<open>high\<close> and the one for \<open>medium\<close> are given to exactly those strings, and every
  other value, \<open>low\<close> and \<open>unknown-value\<close> and the absent one among them, gets the info
  presentation; no component is ever empty.
\<close>

theorem escalationBanner_total:
  "escalationBanner (Some ''high'') = (''#FEF2F2'', ''alert-circle'', error)
   \<and> escalationBanner (Some ''medium'') = (''#FFFBEB'', ''warning'', warning)
   \<and> escalationBanner (Some ''low'') = (''#EBF4FF'', ''information-circle'', info)
   \<and> escalationBanner (Some ''unknown-value'') = (''#EBF4FF'', ''information-circle'', info)
   \<and> escalationBanner None = (''#EBF4FF'', ''information-circle'', info)
   \<and> (sev \<noteq> Some ''high'' \<and> sev \<noteq> Some ''medium'' \<longrightarrow>
        escalationBanner sev = (''#EBF4FF'', ''information-circle'', info))
   \<and> (escalationBanner sev = (''#FEF2F2'', ''alert-circle'', error) \<longleftrightarrow> sev = Some ''high'')
   \<and> (escalationBanner sev = (''#FFFBEB'', ''warning'', warning) \<longleftrightarrow> sev = Some ''medium'')
   \<and> (\<exists>bg icon col. escalationBanner sev = (bg, icon, col) \<and> bg \<noteq> [] \<and> icon \<noteq> [] \<and> col \<noteq> [])
   \<and> escalationBanner_iconColor sev = escalationBanner_textColor sev"
  by (simp add: escalationBanner_def escalationBanner_backgroundColor_def
      escalationBanner_iconName_def escalationBanner_textColor_def escalationBanner_iconColor_def
      error_def warning_def info_def)

theorem escalationBanner_total_witness:
  "escalationBanner (Some ''critical'') = (''#EBF4FF'', ''information-circle'', info)"
  using escalationBanner_total [of "Some ''critical''"] by simp

section \<open>Device registration client\<close>

lemma getDeviceCredentials_frame:
  "getDeviceCredentials w = (r, w') \<Longrightarrow>
     storage w' = storage w \<and> requests w' = requests w \<and> alerts w' = alerts w
     \<and> read_error w' = read_error w \<and> write_error w' = write_error w"
  by (auto simp: getDeviceCredentials_def getItem_def console_error_def
      split: option.splits sum.splits if_splits)

lemma getDeviceCredentials_none:
  "\<not> has_credentials w \<Longrightarrow> fst (getDeviceCredentials w) = None"
  by (auto simp: getDeviceCredentials_def getItem_def has_credentials_def
      split: option.splits sum.splits if_splits)

lemma getDeviceCredentials_some:
  "getDeviceCredentials w = (Some (i, s), w') \<Longrightarrow>
     w' = w \<and> has_credentials w \<and> storage w ''deviceId'' = Some i \<and> storage w ''deviceSecret'' = Some s
     \<and> read_error w ''deviceId'' = None \<and> read_error w ''deviceSecret'' = None"
  by (auto simp: getDeviceCredentials_def getItem_def has_credentials_def
      split: option.splits sum.splits if_splits)

lemma getDeviceCredentials_readable:
  "has_credentials w \<Longrightarrow> read_error w ''deviceId'' = None \<Longrightarrow> read_error w ''deviceSecret'' = None \<Longrightarrow>
     \<exists>i s. getDeviceCredentials w = (Some (i, s), w)
        \<and> storage w ''deviceId'' = Some i \<and> storage w ''deviceSecret'' = Some s"
  by (auto simp: getDeviceCredentials_def getItem_def has_credentials_def
      split: option.splits sum.splits if_splits)

text \<open>
  C8. When storage lacks the device identifier or the device secret,
  \<open>updateSubscriptionSeverity\<close> of the service returns false, logs the error
  \<open>Device not registered\<close> and issues no request; the screen's \<open>updateSubscription\<close> shows an
  error alert (\<open>Device not registered\<close> when the screen holds no registration) and issues no
  request either. Storage is untouched.
\<close>

theorem updateSubscriptionSeverity_not_registered:
  assumes "\<not> has_credentials w"
  shows "(\<exists>w'. updateSubscriptionSeverity e newSeverity w = (False, w')
            \<and> requests w' = requests w
            \<and> storage w' = storage w
            \<and> last (console w') = (ConsoleError, ''Failed to update subscription severity:'',
                                     Some (Error ''Device not registered'')))
       \<and> (\<exists>w' title message. updateSubscription e newSeverity sc w = (sc, w')
            \<and> requests w' = requests w
            \<and> storage w' = storage w
            \<and> alerts w' = alerts w @ [(title, message)]
            \<and> (title = ''Error'' \<or> title = ''Update Failed'')
            \<and> (\<not> truthy (deviceRegistration sc) \<longrightarrow>
                  message = ''Device not registered. Please register first.''))"
proof -
  obtain w1 where c: "getDeviceCredentials w = (None, w1)"
    using getDeviceCredentials_none [OF assms] by (cases "getDeviceCredentials w") simp
  from getDeviceCredentials_frame [OF c]
  have service: "\<exists>w'. updateSubscriptionSeverity e newSeverity w = (False, w')
            \<and> requests w' = requests w
            \<and> storage w' = storage w
            \<and> last (console w') = (ConsoleError, ''Failed to update subscription severity:'',
                                     Some (Error ''Device not registered''))"
    by (simp add: updateSubscriptionSeverity_def c console_error_def)
  have scr: "\<exists>w' title message. updateSubscription e newSeverity sc w = (sc, w')
            \<and> requests w' = requests w
            \<and> storage w' = storage w
            \<and> alerts w' = alerts w @ [(title, message)]
            \<and> (title = ''Error'' \<or> title = ''Update Failed'')
            \<and> (\<not> truthy (deviceRegistration sc) \<longrightarrow>
                  message = ''Device not registered. Please register first.'')"
    using assms
    by (auto simp: updateSubscription_def update_failed_def getItem_def has_credentials_def
        Alert_alert_def console_error_def split: option.splits sum.splits)
  show ?thesis using service scr by blast
qed

theorem updateSubscriptionSeverity_not_registered_witness:
  "(\<exists>w'. updateSubscriptionSeverity offline_env High
            (fresh_world\<lparr>storage := (\<lambda>k. if k = ''deviceId'' then Some ''BUILD1'' else None)\<rparr>)
          = (False, w') \<and> requests w' = [])"
  using updateSubscriptionSeverity_not_registered [of
      "fresh_world\<lparr>storage := (\<lambda>k. if k = ''deviceId'' then Some ''BUILD1'' else None)\<rparr>"
      offline_env High]
  by (auto simp: has_credentials_def fresh_world_def)

text \<open>
  C10. Without stored credentials \<open>getDeviceFilteredEscalations\<close> returns the empty list and
  issues no request. It throws only when the credentials exist and the one request it
  issued was rejected, and then it throws that error; with readable credentials it issues
  exactly one request and throws exactly when the server rejects it.
\<close>

theorem getDeviceFilteredEscalations_no_credentials:
  "(\<not> has_credentials w \<longrightarrow>
      (\<exists>w'. getDeviceFilteredEscalations e w = (Inr (JArr []), w')
         \<and> requests w' = requests w \<and> storage w' = storage w))
   \<and> (\<forall>err w'. getDeviceFilteredEscalations e w = (Inl err, w') \<longrightarrow>
         has_credentials w
         \<and> (\<exists>req. requests w' = requests w @ [req] \<and> server e req = Inl err))
   \<and> (has_credentials w \<and> read_error w ''deviceId'' = None \<and> read_error w ''deviceSecret'' = None \<longrightarrow>
        (\<exists>req r w'. getDeviceFilteredEscalations e w = (r, w')
           \<and> requests w' = requests w @ [req]
           \<and> (case server e req of Inl err \<Rightarrow> r = Inl err | Inr data \<Rightarrow> \<exists>v. r = Inr v)))"
proof -
  have a: "\<exists>w'. getDeviceFilteredEscalations e w = (Inr (JArr []), w')
         \<and> requests w' = requests w \<and> storage w' = storage w" if nc: "\<not> has_credentials w"
  proof -
    obtain w1 where c: "getDeviceCredentials w = (None, w1)"
      using getDeviceCredentials_none [OF nc] by (cases "getDeviceCredentials w") simp
    from getDeviceCredentials_frame [OF c] show ?thesis
      by (simp add: getDeviceFilteredEscalations_def c console_log_def)
  qed
  have b: "has_credentials w \<and> (\<exists>req. requests w' = requests w @ [req] \<and> server e req = Inl err)"
    if "getDeviceFilteredEscalations e w = (Inl err, w')" for err w'
  proof (cases "getDeviceCredentials w")
    case (Pair r w1)
    show ?thesis
    proof (cases r)
      case None
      with Pair that show ?thesis by (simp add: getDeviceFilteredEscalations_def)
    next
      case (Some cred)
      obtain i s where cred: "cred = (i, s)" by (cases cred)
      from Pair Some cred have c: "getDeviceCredentials w = (Some (i, s), w1)" by simp
      from getDeviceCredentials_some [OF c] have "w1 = w" "has_credentials w" by simp_all
      with that c show ?thesis
        by (auto simp: getDeviceFilteredEscalations_def axios_def console_error_def
            split: sum.splits)
    qed
  qed
  have c: "\<exists>req r w'. getDeviceFilteredEscalations e w = (r, w')
           \<and> requests w' = requests w @ [req]
           \<and> (case server e req of Inl err \<Rightarrow> r = Inl err | Inr data \<Rightarrow> \<exists>v. r = Inr v)"
    if hc: "has_credentials w" "read_error w ''deviceId'' = None" "read_error w ''deviceSecret'' = None"
  proof -
    from getDeviceCredentials_readable [OF hc] obtain i s
      where "getDeviceCredentials w = (Some (i, s), w)" by blast
    then show ?thesis
      by (auto simp: getDeviceFilteredEscalations_def axios_def console_error_def
          split: sum.splits)
  qed
  show ?thesis using a b c by blast
qed

theorem getDeviceFilteredEscalations_no_credentials_witness:
  "(\<exists>w'. getDeviceFilteredEscalations offline_env fresh_world = (Inr (JArr []), w')
       \<and> requests w' = [])
   \<and> (\<exists>w'. getDeviceFilteredEscalations offline_env registered_world
              = (Inl (Error ''Network Error''), w')
       \<and> length (requests w') = 1)"
  using getDeviceFilteredEscalations_no_credentials [of fresh_world offline_env]
    getDeviceFilteredEscalations_no_credentials [of registered_world offline_env]
  by (auto simp: has_credentials_def fresh_world_def registered_world_def offline_env_def)

text \<open>
  C9. When the server rejects the registration request, \<open>registerDevice\<close> leaves local storage
  as it was (so identifier and secret are stored together or not at all exactly as before)
  and the screen's registration unset; when the request is reached (a user is logged in,
  permission is granted and a push token obtained) the failure is logged, the alert
  \<open>Registration Failed\<close> asks to try again and the \<open>registering\<close> flag is cleared; otherwise no
  request is issued.
\<close>

theorem registerDevice_request_failure:
  assumes "\<And>req. \<exists>err. server e req = Inl err"
  shows "\<exists>sc' w'. registerDevice e sc w = (sc', w')
           \<and> storage w' = storage w
           \<and> deviceRegistration sc' = deviceRegistration sc
           \<and> (if truthy (user sc)
                   \<and> (permissionStatus sc = ''granted'' \<or> requestPermissionsAsync e = Inr ''granted'')
                   \<and> (\<exists>token. getExpoPushTokenAsync e = Inr token)
                then \<exists>req err. requests w' = requests w @ [req] \<and> server e req = Inl err
                      \<and> console w' = console w @ [(ConsoleError, ''Failed to register device:'', Some err)]
                      \<and> alerts w' = alerts w @ [(''Registration Failed'',
                            ''Unable to register your device for notifications. Please try again.'')]
                      \<and> \<not> registering sc'
                else requests w' = requests w)"
proof -
  from assms obtain f where fails: "\<And>req. server e req = Inl (f req)" by metis
  show ?thesis
    by (auto simp: registerDevice_def requestNotificationPermission_def registration_failed_def
        Alert_alert_def console_error_def axios_def fails Let_def split: sum.splits)
qed

theorem registerDevice_request_failure_witness:
  "\<exists>sc' w'. registerDevice offline_env
       \<lparr>user = JObj [(''id'', JNum 1)], registering = False, deviceRegistration = JNull,
        selectedSeverity = Medium, permissionStatus = ''granted''\<rparr> fresh_world = (sc', w')
     \<and> storage w' ''deviceId'' = None \<and> storage w' ''deviceSecret'' = None
     \<and> length (requests w') = 1
     \<and> alerts w' = [(''Registration Failed'',
                      ''Unable to register your device for notifications. Please try again.'')]"
  using registerDevice_request_failure [of offline_env
      "\<lparr>user = JObj [(''id'', JNum 1)], registering = False, deviceRegistration = JNull,
        selectedSeverity = Medium, permissionStatus = ''granted''\<rparr>" fresh_world]
  by (auto simp: fresh_world_def offline_env_def)

end
